theory Spec2Isabelle
  imports Main
begin

section \<open>JavaScript values used by the service\<close>

text \<open>
  A string is truthy exactly when it is not empty; a property that is absent
  (\<open>undefined\<close>) or \<open>null\<close> is \<open>None\<close> and falsy. \<open>or_js a b\<close> is
  \<open>a || b\<close> on optional strings.
\<close>

definition truthy :: "string option \<Rightarrow> bool" where
  "truthy v = (case v of None \<Rightarrow> False | Some s \<Rightarrow> s \<noteq> [])"

definition or_js :: "string option \<Rightarrow> string option \<Rightarrow> string option" where
  "or_js a b = (if truthy a then a else b)"

text \<open>
  A thrown value. The routes read two things from it:
  \<open>error.response?.data?.error?.message\<close> and \<open>error.message\<close>. The kind is
  the taxonomy of the design (validation, parse, remote); no route reads it.
\<close>

datatype error_kind = ValidationError | ParseError | RemoteError | OtherError

record js_error =
  kind :: error_kind
  response_message :: "string option"
  message :: "string option"

section \<open>app-registration.js\<close>

record resource_access =
  ra_id :: string
  ra_type :: string

record required_resource_access =
  resourceAppId :: string
  resourceAccess :: "resource_access list"

record implicit_grant_settings =
  enableIdTokenIssuance :: bool
  enableAccessTokenIssuance :: bool

record web_settings =
  redirectUris :: "string list"
  implicitGrantSettings :: implicit_grant_settings

text \<open>The body of \<open>POST /applications\<close>.\<close>

record app_registration =
  reg_displayName :: string
  signInAudience :: string
  web :: web_settings
  reg_requiredResourceAccess :: "required_resource_access list"

text \<open>
  An application object as the directory returns it. \<open>requiredResourceAccess\<close>
  may be absent or null, which is \<open>None\<close>.
\<close>

record application =
  app_id :: string
  appId :: string
  displayName :: string
  requiredResourceAccess :: "required_resource_access list option"

text \<open>The body of \<open>PATCH /applications/{id}\<close>: \<open>{ requiredResourceAccess }\<close>.\<close>

record patch_body =
  patch_requiredResourceAccess :: "required_resource_access list"

text \<open>
  The calls of the Graph client: \<open>client.api(path).post(body)\<close>, \<open>.get()\<close>,
  \<open>.patch(body)\<close> and \<open>.delete()\<close>.
\<close>

datatype graph_request =
    Post string app_registration
  | Get string
  | Patch string patch_body
  | Delete string

text \<open>
  The directory service is a parameter: any function from a request and the
  service's state to an answer (an error, or an application object) and a new
  state. A connection pairs the service's state with the requests issued so
  far, in order.
\<close>

type_synonym 's graph_remote = "graph_request \<Rightarrow> 's \<Rightarrow> (js_error + application) \<times> 's"

record 's connection =
  remote :: 's
  requests :: "graph_request list"

definition api :: "'s graph_remote \<Rightarrow> graph_request \<Rightarrow> 's connection
    \<Rightarrow> (js_error + application) \<times> 's connection" where
  "api R req c =
     (case R req (remote c) of
        (resp, s') \<Rightarrow> (resp, \<lparr>remote = s', requests = requests c @ [req]\<rparr>))"

definition graph_user_read :: required_resource_access where
  "graph_user_read =
     \<lparr>resourceAppId = ''00000003-0000-0000-c000-000000000000'',
      resourceAccess = [\<lparr>ra_id = ''e1fe6dd8-ba31-4d61-89e7-88639da4683d'', ra_type = ''Scope''\<rparr>]\<rparr>"

definition appRegistration :: "string \<Rightarrow> string list \<Rightarrow> app_registration" where
  "appRegistration appName uris =
     \<lparr>reg_displayName = appName,
      signInAudience = ''AzureADMyOrg'',
      web = \<lparr>redirectUris = uris,
             implicitGrantSettings =
               \<lparr>enableIdTokenIssuance = True, enableAccessTokenIssuance = True\<rparr>\<rparr>,
      reg_requiredResourceAccess = [graph_user_read]\<rparr>"

text \<open>
  \<open>registerApplication(appName, redirectUris = [])\<close>: an omitted second argument
  (\<open>None\<close>) is the empty list. The \<open>catch\<close> logs and rethrows.
\<close>

definition registerApplication :: "'s graph_remote \<Rightarrow> string \<Rightarrow> string list option
    \<Rightarrow> 's connection \<Rightarrow> (js_error + application) \<times> 's connection" where
  "registerApplication R appName redirect_uris c =
     (let uris = (case redirect_uris of None \<Rightarrow> [] | Some us \<Rightarrow> us) in
      case api R (Post ''/applications'' (appRegistration appName uris)) c of
        (Inr result, c') \<Rightarrow> (Inr result, c')
      | (Inl error, c') \<Rightarrow> (Inl error, c'))"

definition application_path :: "string \<Rightarrow> string" where
  "application_path appObjectId = ''/applications/'' @ appObjectId"

text \<open>\<open>app.requiredResourceAccess || []\<close>\<close>

definition existing_access :: "application \<Rightarrow> required_resource_access list" where
  "existing_access app = (case requiredResourceAccess app of None \<Rightarrow> [] | Some ps \<Rightarrow> ps)"

definition addApiPermissions :: "'s graph_remote \<Rightarrow> string \<Rightarrow> required_resource_access list
    \<Rightarrow> 's connection \<Rightarrow> (js_error + bool) \<times> 's connection" where
  "addApiPermissions R appObjectId permissions c =
     (case api R (Get (application_path appObjectId)) c of
        (Inl error, c1) \<Rightarrow> (Inl error, c1)
      | (Inr app, c1) \<Rightarrow>
          (case api R (Patch (application_path appObjectId)
                         \<lparr>patch_requiredResourceAccess = existing_access app @ permissions\<rparr>) c1 of
             (Inl error, c2) \<Rightarrow> (Inl error, c2)
           | (Inr _, c2) \<Rightarrow> (Inr True, c2)))"

definition managementPermissions :: required_resource_access where
  "managementPermissions =
     \<lparr>resourceAppId = ''797f4846-ba00-4fd7-ba43-dac1f8f63013'',
      resourceAccess = [\<lparr>ra_id = ''41094075-9dad-400e-a0bd-54e686782033'', ra_type = ''Scope''\<rparr>]\<rparr>"

definition addSentinelPermissions :: "'s graph_remote \<Rightarrow> string \<Rightarrow> 's connection
    \<Rightarrow> (js_error + bool) \<times> 's connection" where
  "addSentinelPermissions R appObjectId c = addApiPermissions R appObjectId [managementPermissions] c"


section \<open>The HTTP layer: helpers\<close>

definition UPLOADS_DIR :: string where
  "UPLOADS_DIR = ''uploads''"

definition KQL_EXTENSION :: string where
  "KQL_EXTENSION = ''.kql''"

definition DEFAULT_APP_NAME :: string where
  "DEFAULT_APP_NAME = ''Sentinel TH Integration App''"

text \<open>
  What a route sends: \<open>res.status(n).json(v)\<close>. The JSON value is either
  \<open>{error: string}\<close> or the route's own payload.
\<close>

datatype 'a reply = ErrorJson string | Json 'a

record 'a response =
  status :: nat
  reply :: "'a reply"

text \<open>\<open>a || d\<close> for an optional string \<open>a\<close> and a string \<open>d\<close>.\<close>

definition or_default :: "string option \<Rightarrow> string \<Rightarrow> string" where
  "or_default a d = (case a of None \<Rightarrow> d | Some s \<Rightarrow> if s = [] then d else s)"

definition clientMessage :: "js_error \<Rightarrow> string" where
  "clientMessage error =
     or_default (or_js (response_message error) (message error))
       ''An internal server error occurred.''"

definition sendErrorResponse :: "js_error \<Rightarrow> nat \<Rightarrow> 'a response" where
  "sendErrorResponse error statusCode = \<lparr>status = statusCode, reply = ErrorJson (clientMessage error)\<rparr>"

section \<open>POST /api/register-app\<close>

record register_body =
  body_appName :: "string option"
  body_redirectUris :: "string list option"

record register_reply =
  reply_message :: string
  reply_appId :: string
  reply_objectId :: string
  reply_displayName :: string

definition route_register_app :: "'s graph_remote \<Rightarrow> register_body \<Rightarrow> 's connection
    \<Rightarrow> register_reply response \<times> 's connection" where
  "route_register_app R req_body c =
     (let effectiveAppName = or_default (body_appName req_body) DEFAULT_APP_NAME;
          uris = (case body_redirectUris req_body of None \<Rightarrow> [] | Some us \<Rightarrow> us) in
      case registerApplication R effectiveAppName (Some uris) c of
        (Inl error, c1) \<Rightarrow> (sendErrorResponse error 500, c1)
      | (Inr app, c1) \<Rightarrow>
          (case addSentinelPermissions R (app_id app) c1 of
             (Inl error, c2) \<Rightarrow> (sendErrorResponse error 500, c2)
           | (Inr _, c2) \<Rightarrow>
               (\<lparr>status = 201,
                 reply = Json \<lparr>reply_message = ''Application registered and permissions added successfully'',
                               reply_appId = appId app,
                               reply_objectId = app_id app,
                               reply_displayName = displayName app\<rparr>\<rparr>, c2)))"

section \<open>DELETE /api/purge\<close>

record PurgeResultDetail =
  detail_message :: "string option"
  detail_error :: "string option"

record PurgeResult =
  queryCleanup :: "PurgeResultDetail option"
  huntCleanup :: "PurgeResultDetail option"

text \<open>\<open>aggregate?.error\<close>\<close>

definition chained_error :: "PurgeResultDetail option \<Rightarrow> string option" where
  "chained_error d = (case d of None \<Rightarrow> None | Some x \<Rightarrow> detail_error x)"

text \<open>
  \<open>purgeSentinel\<close> lives in hunting-queries.js; the route takes it as a
  parameter acting on the world \<open>'w\<close>.
\<close>

definition route_purge :: "('w \<Rightarrow> (js_error + PurgeResult) \<times> 'w) \<Rightarrow> 'w
    \<Rightarrow> PurgeResult response \<times> 'w" where
  "route_purge purgeSentinel w =
     (case purgeSentinel w of
        (Inr result, w1) \<Rightarrow>
          (if truthy (chained_error (queryCleanup result)) \<or> truthy (chained_error (huntCleanup result))
           then (\<lparr>status = 207, reply = Json result\<rparr>, w1)
           else (\<lparr>status = 200, reply = Json result\<rparr>, w1))
      | (Inl error, w1) \<Rightarrow> (sendErrorResponse error 500, w1))"

section \<open>The routes that forward to one function of hunting-queries.js\<close>

text \<open>
  \<open>POST /api/hunting-queries\<close>, \<open>/api/hunts\<close>, \<open>/api/link-query\<close> and
  \<open>/api/bulk-create-hunt\<close> have one shape: call the function on the request
  body, answer 201 with its result, and answer through \<open>sendErrorResponse\<close>
  with 500 on anything thrown.
\<close>

definition forward_route :: "('i \<Rightarrow> 'w \<Rightarrow> (js_error + 'r) \<times> 'w) \<Rightarrow> 'i \<Rightarrow> 'w \<Rightarrow> 'r response \<times> 'w" where
  "forward_route f req_body w =
     (case f req_body w of
        (Inr result, w1) \<Rightarrow> (\<lparr>status = 201, reply = Json result\<rparr>, w1)
      | (Inl error, w1) \<Rightarrow> (sendErrorResponse error 500, w1))"


definition route_hunting_queries :: "('i \<Rightarrow> 'w \<Rightarrow> (js_error + 'r) \<times> 'w) \<Rightarrow> 'i \<Rightarrow> 'w \<Rightarrow> 'r response \<times> 'w" where
  "route_hunting_queries createQueryFromInput req_body w = forward_route createQueryFromInput req_body w"

definition route_bulk_create_hunt :: "('i \<Rightarrow> 'w \<Rightarrow> (js_error + 'r) \<times> 'w) \<Rightarrow> 'i \<Rightarrow> 'w \<Rightarrow> 'r response \<times> 'w" where
  "route_bulk_create_hunt createHuntWithQuery req_body w = forward_route createHuntWithQuery req_body w"

section \<open>The upload filter\<close>

text \<open>
  A JavaScript string is a sequence of UTF-16 code units; \<open>ascii\<close> gives the
  code units of an ASCII literal. \<open>CHAR_FORWARD_SLASH\<close> and \<open>CHAR_DOT\<close> are
  the character codes Node compares with.
\<close>

type_synonym js_string = "nat list"

definition ascii :: "string \<Rightarrow> js_string" where
  "ascii s = map of_char s"

abbreviation CHAR_FORWARD_SLASH :: nat where
  "CHAR_FORWARD_SLASH \<equiv> 47"

abbreviation CHAR_DOT :: nat where
  "CHAR_DOT \<equiv> 46"

text \<open>
  \<open>path.extname\<close> (POSIX) scans the name from its last code unit to its
  first, as Node's loop does: \<open>startDot\<close>, \<open>endPos\<close> are indices or \<open>-1\<close>,
  \<open>preDotState\<close> is \<open>0\<close>, \<open>1\<close> or \<open>-1\<close>.
\<close>

record extname_state =
  startDot :: int
  startPart :: int
  endPos :: int
  matchedSlash :: bool
  preDotState :: int

definition extname_init :: extname_state where
  "extname_init = \<lparr>startDot = -1, startPart = 0, endPos = -1, matchedSlash = True, preDotState = 0\<rparr>"

text \<open>\<open>extname_loop p n st\<close> runs the iterations \<open>i = n - 1, ..., 0\<close>.\<close>

fun extname_loop :: "js_string \<Rightarrow> nat \<Rightarrow> extname_state \<Rightarrow> extname_state" where
  "extname_loop p 0 st = st"
| "extname_loop p (Suc i) st =
     (let code = p ! i in
      if code = CHAR_FORWARD_SLASH then
        (if \<not> matchedSlash st then st\<lparr>startPart := int i + 1\<rparr>
         else extname_loop p i st)
      else
        (let st1 = (if endPos st = -1 then st\<lparr>matchedSlash := False, endPos := int i + 1\<rparr> else st);
             st2 = (if code = CHAR_DOT then
                      (if startDot st1 = -1 then st1\<lparr>startDot := int i\<rparr>
                       else if preDotState st1 \<noteq> 1 then st1\<lparr>preDotState := 1\<rparr>
                       else st1)
                    else if startDot st1 \<noteq> -1 then st1\<lparr>preDotState := -1\<rparr>
                    else st1)
         in extname_loop p i st2))"

definition extname :: "js_string \<Rightarrow> js_string" where
  "extname p =
     (let st = extname_loop p (length p) extname_init in
      if startDot st = -1 \<or> endPos st = -1 \<or> preDotState st = 0 \<or>
         (preDotState st = 1 \<and> startDot st = endPos st - 1 \<and> startDot st = startPart st + 1)
      then []
      else take (nat (endPos st - startDot st)) (drop (nat (startDot st)) p))"

text \<open>
  \<open>String.prototype.toLowerCase\<close>. An ASCII code unit is lower-cased by
  itself: \<open>A\<close> to \<open>Z\<close> become \<open>a\<close> to \<open>z\<close>, the others stay. The
  Kelvin sign U+212A becomes \<open>k\<close>. Every other code unit is lower-cased by the
  engine's Unicode tables, which are a parameter: \<open>tbl left c right\<close> is
  what the code unit \<open>c\<close> becomes between the code units \<open>left\<close> and
  \<open>right\<close> (the mapping of a surrogate or of a sigma depends on them).
\<close>

type_synonym case_table = "js_string \<Rightarrow> nat \<Rightarrow> js_string \<Rightarrow> js_string"

definition lower_unit :: "case_table \<Rightarrow> js_string \<Rightarrow> nat \<Rightarrow> js_string \<Rightarrow> js_string" where
  "lower_unit tbl left c right =
     (if c < 128 then (if 65 \<le> c \<and> c \<le> 90 then [c + 32] else [c])
      else if c = 0x212A then [107]
      else tbl left c right)"

fun lower_from :: "case_table \<Rightarrow> js_string \<Rightarrow> js_string \<Rightarrow> js_string" where
  "lower_from tbl left [] = []"
| "lower_from tbl left (c # right) =
     lower_unit tbl left c right @ lower_from tbl (left @ [c]) right"

definition toLowerCase :: "case_table \<Rightarrow> js_string \<Rightarrow> js_string" where
  "toLowerCase tbl s = lower_from tbl [] s"

record uploaded_part =
  fieldname :: string
  originalname :: js_string
  content :: string

text \<open>
  The \<open>fileFilter\<close> of the multer instance: \<open>cb(new Error(...))\<close> is \<open>Inl\<close>,
  \<open>cb(null, true)\<close> is \<open>Inr True\<close>.
\<close>

definition fileFilter :: "case_table \<Rightarrow> uploaded_part \<Rightarrow> js_error + bool" where
  "fileFilter tbl file =
     (let ext = toLowerCase tbl (extname (originalname file)) in
      if ext \<noteq> ascii KQL_EXTENSION
      then Inl \<lparr>kind = OtherError, response_message = None,
                message = Some (''Only '' @ KQL_EXTENSION @ '' files are allowed'')\<rparr>
      else Inr True)"

section \<open>The SIEM workspace, the file system and the server's world\<close>

record tag =
  tag_name :: string
  tag_value :: string

record saved_search_properties =
  category :: string
  ss_displayName :: string
  query :: string
  ss_description :: string
  tags :: "tag list"
  extid :: "string option"

record hunt_properties =
  hunt_displayName :: string
  hunt_description :: string
  hunt_status :: string
  hunt_labels :: "string list"

record relation_properties =
  relatedResourceId :: string
  relatedResourceType :: string
  relation_labels :: "string list"

datatype properties =
    SavedSearchProperties saved_search_properties
  | HuntProperties hunt_properties
  | RelationProperties relation_properties

text \<open>A resource as the workspace returns it: id, name and properties.\<close>

record resource =
  res_id :: string
  res_name :: string
  res_properties :: properties

text \<open>
  The creating and deleting primitives of the SIEM client. A saved search and a
  hunt are addressed by a name the caller chooses; a relation by its hunt's name
  and its own.
\<close>

datatype siem_request =
    CreateSavedSearch string saved_search_properties
  | CreateHunt string hunt_properties
  | CreateRelation string string relation_properties
  | DeleteSavedSearch string
  | DeleteHunt string
  | DeleteRelation string string

type_synonym 's siem_remote = "siem_request \<Rightarrow> 's \<Rightarrow> (js_error + resource) \<times> 's"

text \<open>
  The world of a request: the workspace's state, the SIEM requests issued so
  far, the files on disk (path to content), what the operating system answers
  to each attempt to unlink an existing file (\<open>unlink_fault w n\<close> is the
  error of the attempt number \<open>n\<close>, such as EPERM, EACCES or EBUSY, or
  \<open>None\<close> when it goes through) with the number of attempts made, and the
  source of random names with the number already drawn.
\<close>

record 's world =
  workspace :: 's
  issued :: "siem_request list"
  files :: "string \<rightharpoonup> string"
  unlink_fault :: "nat \<Rightarrow> js_error option"
  unlinks :: nat
  entropy :: "nat \<Rightarrow> string"
  drawn :: nat

definition siem_call :: "'s siem_remote \<Rightarrow> siem_request \<Rightarrow> 's world \<Rightarrow> (js_error + resource) \<times> 's world" where
  "siem_call S req w =
     (case S req (workspace w) of
        (resp, s') \<Rightarrow> (resp, w\<lparr>workspace := s', issued := issued w @ [req]\<rparr>))"

definition uuidv4 :: "'s world \<Rightarrow> string \<times> 's world" where
  "uuidv4 w = (entropy w (drawn w), w\<lparr>drawn := drawn w + 1\<rparr>)"

text \<open>
  \<open>fs.existsSync\<close> and \<open>fs.unlinkSync\<close>. Unlinking a path that does not
  exist throws ENOENT. Unlinking one that exists removes it, unless the
  operating system refuses this attempt; then it throws that error and the file
  stays. Node puts the path between single quotes in the message.
\<close>

definition existsSync :: "string \<Rightarrow> 's world \<Rightarrow> bool" where
  "existsSync p w = (files w p \<noteq> None)"

definition quoted :: "string \<Rightarrow> string" where
  "quoted p = CHR 0x27 # p @ [CHR 0x27]"

definition enoent :: "string \<Rightarrow> string \<Rightarrow> js_error" where
  "enoent syscall p =
     \<lparr>kind = OtherError, response_message = None,
      message = Some (''ENOENT: no such file or directory, '' @ syscall @ '' '' @ quoted p)\<rparr>"

definition unlinkSync :: "string \<Rightarrow> 's world \<Rightarrow> (js_error + unit) \<times> 's world" where
  "unlinkSync p w =
     (let w' = w\<lparr>unlinks := unlinks w + 1\<rparr> in
      if files w p = None then (Inl (enoent ''unlink'' p), w')
      else
        (case unlink_fault w (unlinks w) of
           Some error \<Rightarrow> (Inl error, w')
         | None \<Rightarrow> (Inr (), w'\<lparr>files := (files w)(p := None)\<rparr>)))"

section \<open>POST /api/hunting-queries/upload\<close>

text \<open>\<open>req.file\<close> as multer sets it for a stored file.\<close>

record staged_file =
  file_originalname :: js_string
  file_path :: string

text \<open>
  \<open>upload.single('file')\<close> with \<open>dest: UPLOADS_DIR\<close>. A request with no file
  part leaves \<open>req.file\<close> undefined, and so does a part whose file name is
  empty: multer skips it before any check. A part in another field, or one the
  filter refuses, ends the middleware with an error, which Express passes to its
  error handling: the route's handler does not run and nothing is stored. An
  accepted part is written under the uploads directory with a random file name.
\<close>

definition unexpected_field :: js_error where
  "unexpected_field = \<lparr>kind = OtherError, response_message = None, message = Some ''Unexpected field''\<rparr>"

definition upload_single :: "case_table \<Rightarrow> uploaded_part option \<Rightarrow> string \<Rightarrow> 's world
    \<Rightarrow> (js_error + staged_file option) \<times> 's world" where
  "upload_single tbl part filename w =
     (case part of
        None \<Rightarrow> (Inr None, w)
      | Some file \<Rightarrow>
          if originalname file = [] then (Inr None, w)
          else if fieldname file \<noteq> ''file'' then (Inl unexpected_field, w)
          else
            (case fileFilter tbl file of
               Inl error \<Rightarrow> (Inl error, w)
             | Inr False \<Rightarrow> (Inr None, w)
             | Inr True \<Rightarrow>
                 (let p = UPLOADS_DIR @ ''/'' @ filename in
                  (Inr (Some \<lparr>file_originalname = originalname file, file_path = p\<rparr>),
                   w\<lparr>files := (files w)(p \<mapsto> content file)\<rparr>))))"

text \<open>
  The \<open>catch\<close> block of the handler: when \<open>req.file?.path\<close> is truthy and the
  file exists, unlink it, and swallow an error of that unlink (it is logged);
  then answer 500 with the error that was caught first.
\<close>

definition upload_catch :: "js_error \<Rightarrow> staged_file \<Rightarrow> 's world \<Rightarrow> 'r response \<times> 's world" where
  "upload_catch error file w =
     (let w' = (if file_path file \<noteq> [] \<and> existsSync (file_path file) w
                then (case unlinkSync (file_path file) w of
                        (Inr _, w2) \<Rightarrow> w2
                      | (Inl cleanupError, w2) \<Rightarrow> w2)
                else w)
      in (sendErrorResponse error 500, w'))"

text \<open>
  The handler. \<open>createQueryFromFile\<close> lives in hunting-queries.js and is a
  parameter: any function of the path and the world.
\<close>

definition upload_handler :: "(string \<Rightarrow> 's world \<Rightarrow> (js_error + 'r) \<times> 's world)
    \<Rightarrow> staged_file option \<Rightarrow> 's world \<Rightarrow> 'r response \<times> 's world" where
  "upload_handler createQueryFromFile req_file w =
     (case req_file of
        None \<Rightarrow> (\<lparr>status = 400, reply = ErrorJson ''No file uploaded''\<rparr>, w)
      | Some file \<Rightarrow>
          (case createQueryFromFile (file_path file) w of
             (Inl error, w1) \<Rightarrow> upload_catch error file w1
           | (Inr result, w1) \<Rightarrow>
               (case unlinkSync (file_path file) w1 of
                  (Inl error, w2) \<Rightarrow> upload_catch error file w2
                | (Inr _, w2) \<Rightarrow> (\<lparr>status = 201, reply = Json result\<rparr>, w2))))"

text \<open>
  What the route does with a request: an error handed to Express by the
  middleware, or the handler's response.
\<close>

datatype 'r outcome = NextError js_error | Sent "'r response"

definition route_upload :: "case_table \<Rightarrow> (string \<Rightarrow> 's world \<Rightarrow> (js_error + 'r) \<times> 's world)
    \<Rightarrow> uploaded_part option \<Rightarrow> string \<Rightarrow> 's world \<Rightarrow> 'r outcome \<times> 's world" where
  "route_upload tbl createQueryFromFile part filename w =
     (case upload_single tbl part filename w of
        (Inl error, w1) \<Rightarrow> (NextError error, w1)
      | (Inr req_file, w1) \<Rightarrow>
          (case upload_handler createQueryFromFile req_file w1 of
             (r, w2) \<Rightarrow> (Sent r, w2)))"

section \<open>hunting-queries.js, from the design\<close>

text \<open>
  Modelled from the spec: the inputs of the builders of hunting-queries.js (not
  among the sources), after the QueryInput of the interface description. An
  absent property is \<open>None\<close>. The tactics and techniques are the individual
  values the input names.
\<close>

record query_input =
  in_name :: "string option"
  in_query :: "string option"
  in_description :: "string option"
  in_tactics :: "string list"
  in_techniques :: "string list"
  in_extid :: "string option"

record bulk_input = query_input +
  huntName :: "string option"
  huntDescription :: "string option"

record hunt_input =
  hunt_name :: "string option"
  hunt_desc :: "string option"

record link_input =
  huntId :: "string option"
  queryResourceId :: "string option"

text \<open>
  Modelled from the spec: the constants of hunting-queries.js and of its
  configuration that the spec names without giving their values, as parameters:
  the Attribution Label and the name of the tag that holds it on a saved search,
  the workspace's resource path, the category and status given to new resources,
  and the parser of the header convention of an uploaded file.
\<close>

record config =
  attribution_label :: string
  attribution_tag :: string
  workspace_id :: string
  query_category :: string
  new_hunt_status :: string
  parse_kql :: "string \<Rightarrow> query_input option"

text \<open>
  Modelled from the spec: the errors of the builders (ValidationError and
  ParseError of the error taxonomy), each with its message.
\<close>

definition validation_error :: "string \<Rightarrow> js_error" where
  "validation_error msg = \<lparr>kind = ValidationError, response_message = None, message = Some msg\<rparr>"

definition parse_error :: "string \<Rightarrow> js_error" where
  "parse_error msg = \<lparr>kind = ParseError, response_message = None, message = Some msg\<rparr>"

definition text_or_empty :: "string option \<Rightarrow> string" where
  "text_or_empty v = (case v of None \<Rightarrow> [] | Some s \<Rightarrow> s)"

text \<open>
  Modelled from the spec: the tag set Query Builder sends (hunting-queries.js is
  not among the sources). One tag per tactic, one per technique, and the
  Attribution Label.
\<close>

definition query_tags :: "config \<Rightarrow> 'a query_input_scheme \<Rightarrow> tag list" where
  "query_tags cfg payload =
     map (\<lambda>t. \<lparr>tag_name = ''tactics'', tag_value = t\<rparr>) (in_tactics payload) @
     map (\<lambda>t. \<lparr>tag_name = ''techniques'', tag_value = t\<rparr>) (in_techniques payload) @
     [\<lparr>tag_name = attribution_tag cfg, tag_value = attribution_label cfg\<rparr>]"

text \<open>
  Modelled from the spec: \<open>createQueryFromInput\<close> of hunting-queries.js (not
  among the sources). \<open>name\<close> and \<open>query\<close> are required, and a missing one
  fails with a ValidationError before any remote call; the label is stamped into
  the tag set; the result is the remote client's, and its error propagates
  unchanged.
\<close>

definition createQueryFromInput :: "config \<Rightarrow> 's siem_remote \<Rightarrow> 'a query_input_scheme \<Rightarrow> 's world
    \<Rightarrow> (js_error + resource) \<times> 's world" where
  "createQueryFromInput cfg S payload w =
     (case (in_name payload, in_query payload) of
        (Some n, Some q) \<Rightarrow>
          (case uuidv4 w of
             (resourceName, w1) \<Rightarrow>
               siem_call S
                 (CreateSavedSearch resourceName
                    \<lparr>category = query_category cfg,
                     ss_displayName = n,
                     query = q,
                     ss_description = text_or_empty (in_description payload),
                     tags = query_tags cfg payload,
                     extid = in_extid payload\<rparr>) w1)
      | _ \<Rightarrow> (Inl (validation_error ''name and query are required''), w))"

text \<open>
  Modelled from the spec: \<open>createQueryFromFile\<close> of hunting-queries.js (not
  among the sources). It reads the file as text, parses the header convention
  and the KQL body (a ParseError when there is none), and creates the query as
  the input path does. It never deletes the file.
\<close>

definition createQueryFromFile :: "config \<Rightarrow> 's siem_remote \<Rightarrow> string \<Rightarrow> 's world
    \<Rightarrow> (js_error + resource) \<times> 's world" where
  "createQueryFromFile cfg S p w =
     (case files w p of
        None \<Rightarrow> (Inl (enoent ''open'' p), w)
      | Some text \<Rightarrow>
          (case parse_kql cfg text of
             None \<Rightarrow> (Inl (parse_error ''no KQL query found in file''), w)
           | Some payload \<Rightarrow> createQueryFromInput cfg S payload w))"

text \<open>
  Modelled from the spec: \<open>createSentinelHunt\<close> of hunting-queries.js (not
  among the sources). \<open>name\<close> is required; the hunt gets a new random resource
  name and the label in its label set.
\<close>

definition createSentinelHunt :: "config \<Rightarrow> 's siem_remote \<Rightarrow> hunt_input \<Rightarrow> 's world
    \<Rightarrow> (js_error + resource) \<times> 's world" where
  "createSentinelHunt cfg S payload w =
     (case hunt_name payload of
        None \<Rightarrow> (Inl (validation_error ''name is required''), w)
      | Some n \<Rightarrow>
          (case uuidv4 w of
             (resourceName, w1) \<Rightarrow>
               siem_call S
                 (CreateHunt resourceName
                    \<lparr>hunt_displayName = n,
                     hunt_description = text_or_empty (hunt_desc payload),
                     hunt_status = new_hunt_status cfg,
                     hunt_labels = [attribution_label cfg]\<rparr>) w1))"

text \<open>
  Modelled from the spec: the well-formedness check of Relation Linker. The id
  must reference a saved search under the configured workspace.
\<close>

definition saved_search_prefix :: "config \<Rightarrow> string" where
  "saved_search_prefix cfg = workspace_id cfg @ ''/savedSearches/''"

definition well_formed_query_id :: "config \<Rightarrow> string \<Rightarrow> bool" where
  "well_formed_query_id cfg p =
     (length (saved_search_prefix cfg) < length p \<and>
      take (length (saved_search_prefix cfg)) p = saved_search_prefix cfg)"

text \<open>
  Modelled from the spec: \<open>linkQueryToHunt\<close> of hunting-queries.js (not among
  the sources). Both fields are required and the query id must be well formed;
  the relation gets a new random name and the label; there is no local check
  that the hunt or the query exists.
\<close>

definition linkQueryToHunt :: "config \<Rightarrow> 's siem_remote \<Rightarrow> link_input \<Rightarrow> 's world
    \<Rightarrow> (js_error + resource) \<times> 's world" where
  "linkQueryToHunt cfg S payload w =
     (case (huntId payload, queryResourceId payload) of
        (Some h, Some q) \<Rightarrow>
          if \<not> well_formed_query_id cfg q
          then (Inl (validation_error ''queryResourceId is not a saved search of the workspace''), w)
          else
            (case uuidv4 w of
               (relationName, w1) \<Rightarrow>
                 siem_call S
                   (CreateRelation h relationName
                      \<lparr>relatedResourceId = q,
                       relatedResourceType = ''Microsoft.OperationalInsights/workspaces/savedSearches'',
                       relation_labels = [attribution_label cfg]\<rparr>) w1)
      | _ \<Rightarrow> (Inl (validation_error ''huntId and queryResourceId are required''), w))"

text \<open>
  Modelled from the spec: \<open>createHuntWithQuery\<close> of hunting-queries.js (not
  among the sources), the four steps of the bulk create-and-link: validate,
  create the saved search, create the hunt, link them. Each step's failure
  propagates as it is; nothing is rolled back.
\<close>

definition createHuntWithQuery :: "config \<Rightarrow> 's siem_remote \<Rightarrow> bulk_input \<Rightarrow> 's world
    \<Rightarrow> (js_error + resource) \<times> 's world" where
  "createHuntWithQuery cfg S payload w =
     (if in_name payload = None \<or> in_query payload = None \<or> huntName payload = None
      then (Inl (validation_error ''name, query and huntName are required''), w)
      else
        (case createQueryFromInput cfg S payload w of
           (Inl error, w1) \<Rightarrow> (Inl error, w1)
         | (Inr savedSearch, w1) \<Rightarrow>
             (case createSentinelHunt cfg S
                     \<lparr>hunt_name = huntName payload, hunt_desc = huntDescription payload\<rparr> w1 of
                (Inl error, w2) \<Rightarrow> (Inl error, w2)
              | (Inr hunt, w2) \<Rightarrow>
                  linkQueryToHunt cfg S
                    \<lparr>huntId = Some (res_name hunt), queryResourceId = Some (res_id savedSearch)\<rparr> w2)))"

text \<open>The creation paths of the system, as one type.\<close>

datatype creation =
    FromInput query_input
  | FromFile string
  | NewHunt hunt_input
  | Link link_input
  | Bulk bulk_input

fun create :: "config \<Rightarrow> 's siem_remote \<Rightarrow> creation \<Rightarrow> 's world \<Rightarrow> (js_error + resource) \<times> 's world" where
  "create cfg S (FromInput payload) w = createQueryFromInput cfg S payload w"
| "create cfg S (FromFile p) w = createQueryFromFile cfg S p w"
| "create cfg S (NewHunt payload) w = createSentinelHunt cfg S payload w"
| "create cfg S (Link payload) w = linkQueryToHunt cfg S payload w"
| "create cfg S (Bulk payload) w = createHuntWithQuery cfg S payload w"


section \<open>Reference services\<close>

text \<open>
  Two in-memory services to run the operations against. Each refuses the
  requests its \<open>down\<close> predicate selects, with a remote error and no change of
  state, and otherwise does what the request asks.
\<close>

definition remote_error :: js_error where
  "remote_error = \<lparr>kind = RemoteError, response_message = Some ''Service unavailable'',
                    message = Some ''Request failed with status code 503''\<rparr>"

definition not_found :: js_error where
  "not_found = \<lparr>kind = RemoteError, response_message = Some ''Resource not found'',
                 message = Some ''Request failed with status code 404''\<rparr>"

definition directory_service :: "(graph_request \<Rightarrow> bool) \<Rightarrow> application list graph_remote" where
  "directory_service down req s =
     (if down req then (Inl remote_error, s)
      else
        (case req of
           Post p reg \<Rightarrow>
             (let a = \<lparr>app_id = ''object-'' @ reg_displayName reg,
                       appId = ''client-'' @ reg_displayName reg,
                       displayName = reg_displayName reg,
                       requiredResourceAccess = Some (reg_requiredResourceAccess reg)\<rparr>
              in (Inr a, a # s))
         | Get p \<Rightarrow>
             (case find (\<lambda>a. application_path (app_id a) = p) s of
                None \<Rightarrow> (Inl not_found, s)
              | Some a \<Rightarrow> (Inr a, s))
         | Patch p b \<Rightarrow>
             (case find (\<lambda>a. application_path (app_id a) = p) s of
                None \<Rightarrow> (Inl not_found, s)
              | Some a \<Rightarrow>
                  (let a' = a\<lparr>requiredResourceAccess := Some (patch_requiredResourceAccess b)\<rparr>
                   in (Inr a', map (\<lambda>x. if application_path (app_id x) = p then a' else x) s)))
         | Delete p \<Rightarrow>
             (case find (\<lambda>a. application_path (app_id a) = p) s of
                None \<Rightarrow> (Inl not_found, s)
              | Some a \<Rightarrow> (Inr a, filter (\<lambda>x. application_path (app_id x) \<noteq> p) s))))"

definition hunt_prefix :: "config \<Rightarrow> string" where
  "hunt_prefix cfg = workspace_id cfg @ ''/providers/Microsoft.SecurityInsights/hunts/''"

text \<open>The resource a creating request makes; \<open>None\<close> for a deleting one.\<close>

fun made :: "config \<Rightarrow> siem_request \<Rightarrow> resource option" where
  "made cfg (CreateSavedSearch n p) =
     Some \<lparr>res_id = saved_search_prefix cfg @ n, res_name = n, res_properties = SavedSearchProperties p\<rparr>"
| "made cfg (CreateHunt n p) =
     Some \<lparr>res_id = hunt_prefix cfg @ n, res_name = n, res_properties = HuntProperties p\<rparr>"
| "made cfg (CreateRelation h n p) =
     Some \<lparr>res_id = hunt_prefix cfg @ h @ ''/relations/'' @ n, res_name = n,
           res_properties = RelationProperties p\<rparr>"
| "made cfg (DeleteSavedSearch n) = None"
| "made cfg (DeleteHunt n) = None"
| "made cfg (DeleteRelation h n) = None"

fun target :: "config \<Rightarrow> siem_request \<Rightarrow> string" where
  "target cfg (CreateSavedSearch n p) = saved_search_prefix cfg @ n"
| "target cfg (CreateHunt n p) = hunt_prefix cfg @ n"
| "target cfg (CreateRelation h n p) = hunt_prefix cfg @ h @ ''/relations/'' @ n"
| "target cfg (DeleteSavedSearch n) = saved_search_prefix cfg @ n"
| "target cfg (DeleteHunt n) = hunt_prefix cfg @ n"
| "target cfg (DeleteRelation h n) = hunt_prefix cfg @ h @ ''/relations/'' @ n"

text \<open>
  What a relation needs to exist before it is created: its hunt and the saved
  search it points to. The other requests need nothing.
\<close>

fun referents :: "config \<Rightarrow> siem_request \<Rightarrow> string list" where
  "referents cfg (CreateRelation h n p) = [hunt_prefix cfg @ h, relatedResourceId p]"
| "referents cfg _ = []"

definition workspace_service :: "config \<Rightarrow> (siem_request \<Rightarrow> bool) \<Rightarrow> resource list siem_remote" where
  "workspace_service cfg down req s =
     (if down req then (Inl remote_error, s)
      else
        (case made cfg req of
           Some r \<Rightarrow>
             if list_all (\<lambda>i. list_ex (\<lambda>x. res_id x = i) s) (referents cfg req)
             then (Inr r, r # filter (\<lambda>x. res_id x \<noteq> res_id r) s)
             else (Inl not_found, s)
         | None \<Rightarrow>
             (case find (\<lambda>x. res_id x = target cfg req) s of
                None \<Rightarrow> (Inl not_found, s)
              | Some r \<Rightarrow> (Inr r, filter (\<lambda>x. res_id x \<noteq> target cfg req) s))))"

section \<open>Predicates of the claims\<close>

fun is_delete :: "graph_request \<Rightarrow> bool" where
  "is_delete (Delete p) = True"
| "is_delete _ = False"

fun siem_delete :: "siem_request \<Rightarrow> bool" where
  "siem_delete (DeleteSavedSearch n) = True"
| "siem_delete (DeleteHunt n) = True"
| "siem_delete (DeleteRelation h n) = True"
| "siem_delete _ = False"

fun creates_relation :: "siem_request \<Rightarrow> bool" where
  "creates_relation (CreateRelation h n p) = True"
| "creates_relation _ = False"

text \<open>
  The order of the bulk operation: a list of requests is in order when it is a
  prefix of: create a saved search, create a hunt, create a relation.
\<close>

fun in_bulk_order :: "siem_request list \<Rightarrow> bool" where
  "in_bulk_order [] = True"
| "in_bulk_order [CreateSavedSearch n1 p1] = True"
| "in_bulk_order [CreateSavedSearch n1 p1, CreateHunt n2 p2] = True"
| "in_bulk_order [CreateSavedSearch n1 p1, CreateHunt n2 p2, CreateRelation h n3 p3] = True"
| "in_bulk_order _ = False"

text \<open>A resource carries the Attribution Label in its tag set or label set.\<close>

definition carries_label :: "config \<Rightarrow> resource \<Rightarrow> bool" where
  "carries_label cfg r =
     (case res_properties r of
        SavedSearchProperties p \<Rightarrow> list_ex (\<lambda>t. tag_value t = attribution_label cfg) (tags p)
      | HuntProperties p \<Rightarrow> list_ex (\<lambda>l. l = attribution_label cfg) (hunt_labels p)
      | RelationProperties p \<Rightarrow> list_ex (\<lambda>l. l = attribution_label cfg) (relation_labels p))"

text \<open>A request is stamped when the resource it makes, if any, carries the label.\<close>

definition stamped :: "config \<Rightarrow> siem_request \<Rightarrow> bool" where
  "stamped cfg req = (case made cfg req of None \<Rightarrow> True | Some r \<Rightarrow> carries_label cfg r)"

text \<open>
  The ownership invariant on a world of the reference workspace: a stored
  resource carries the label exactly when a request of this system made it.
\<close>

definition owned :: "config \<Rightarrow> resource list world \<Rightarrow> bool" where
  "owned cfg w =
     list_all (\<lambda>r. carries_label cfg r = list_ex (\<lambda>req. made cfg req = Some r) (issued w))
       (workspace w)"

text \<open>
  The spellings of the extension \<open>.kql\<close>: a dot, then \<open>k\<close>, \<open>K\<close> or the
  Kelvin sign, then \<open>q\<close> or \<open>Q\<close>, then \<open>l\<close> or \<open>L\<close>.
\<close>

definition kql_spelling :: "js_string \<Rightarrow> bool" where
  "kql_spelling e =
     (case e of
        [d, k, q, l] \<Rightarrow>
          d = CHAR_DOT \<and> (k = 107 \<or> k = 75 \<or> k = 0x212A) \<and> (q = 113 \<or> q = 81)
          \<and> (l = 108 \<or> l = 76)
      | _ \<Rightarrow> False)"

text \<open>
  What the filter needs of the engine's tables: a code unit beyond ASCII, the
  Kelvin sign apart, never becomes nothing and never becomes a dot, \<open>k\<close>,
  \<open>q\<close> or \<open>l\<close>. (In Unicode the Kelvin sign is the only character beyond
  ASCII whose lower case is one of these.)
\<close>

definition spares_kql :: "case_table \<Rightarrow> bool" where
  "spares_kql tbl =
     (\<forall>left c right.
        128 \<le> c \<and> c \<noteq> 0x212A \<longrightarrow>
        tbl left c right \<noteq> [] \<and>
        CHAR_DOT \<notin> set (tbl left c right) \<and> 107 \<notin> set (tbl left c right) \<and>
        113 \<notin> set (tbl left c right) \<and> 108 \<notin> set (tbl left c right))"

text \<open>
  When the staged file outlives the handler: it is still there after the
  creation call, and every unlink the handler then attempts is refused: two
  attempts after a creation that succeeded (the one before the answer and the
  one of the \<open>catch\<close> block), one after a creation that failed.
\<close>

definition unlinks_refused :: "bool \<Rightarrow> string \<Rightarrow> 's world \<Rightarrow> bool" where
  "unlinks_refused created p w =
     (files w p \<noteq> None \<and> unlink_fault w (unlinks w) \<noteq> None \<and>
      (if created then unlink_fault w (unlinks w + 1) \<noteq> None else True))"

text \<open>An aggregate of a purge result carries an error: a non-empty description.\<close>

definition carries_error :: "PurgeResultDetail option \<Rightarrow> bool" where
  "carries_error d =
     (case d of
        None \<Rightarrow> False
      | Some x \<Rightarrow> (case detail_error x of None \<Rightarrow> False | Some e \<Rightarrow> e \<noteq> []))"


section \<open>Sample data\<close>

definition app0 :: application where
  "app0 = \<lparr>app_id = ''object-hunts'', appId = ''client-hunts'', displayName = ''hunts'',
           requiredResourceAccess = Some [graph_user_read]\<rparr>"

definition up :: "graph_request \<Rightarrow> bool" where
  "up req = False"

definition patch_down :: "graph_request \<Rightarrow> bool" where
  "patch_down req = (case req of Patch p b \<Rightarrow> True | _ \<Rightarrow> False)"

definition cfg0 :: config where
  "cfg0 = \<lparr>attribution_label = ''huntsAPI'', attribution_tag = ''createdBy'',
           workspace_id = ''/ws'', query_category = ''Hunting Queries'',
           new_hunt_status = ''New'',
           parse_kql = (\<lambda>t. if t = [] then None
                             else Some \<lparr>in_name = Some ''uploaded'', in_query = Some t,
                                        in_description = None, in_tactics = [],
                                        in_techniques = [], in_extid = None\<rparr>)\<rparr>"

definition siem_up :: "siem_request \<Rightarrow> bool" where
  "siem_up req = False"

definition hunts_down :: "siem_request \<Rightarrow> bool" where
  "hunts_down req = (case req of CreateHunt n p \<Rightarrow> True | _ \<Rightarrow> False)"

definition w0 :: "resource list world" where
  "w0 = \<lparr>workspace = [], issued = [], files = Map.empty,
          unlink_fault = (\<lambda>n. None), unlinks = 0,
          entropy = (\<lambda>n. replicate (Suc n) CHR ''a''), drawn = 0\<rparr>"

definition eperm :: "string \<Rightarrow> js_error" where
  "eperm p = \<lparr>kind = OtherError, response_message = None,
              message = Some (''EPERM: operation not permitted, unlink '' @ quoted p)\<rparr>"

text \<open>A world where no file of the uploads directory can be unlinked.\<close>

definition w_locked :: "resource list world" where
  "w_locked = w0\<lparr>unlink_fault := (\<lambda>n. Some (eperm ''uploads/3f2a''))\<rparr>"

text \<open>A world where the first unlink is refused and the next goes through.\<close>

definition w_busy :: "resource list world" where
  "w_busy = w0\<lparr>unlink_fault := (\<lambda>n. if n = 0 then Some (eperm ''uploads/3f2a'') else None)\<rparr>"

text \<open>Tables that leave every code unit beyond ASCII as it is.\<close>

definition keep :: case_table where
  "keep left c right = [c]"

definition part0 :: uploaded_part where
  "part0 = \<lparr>fieldname = ''file'', originalname = ascii ''Hunt.KQL'', content = ''Heartbeat''\<rparr>"

definition bulk0 :: bulk_input where
  "bulk0 = \<lparr>in_name = Some ''q1'', in_query = Some ''Heartbeat'', in_description = None,
            in_tactics = [''Discovery''], in_techniques = [''T1046''], in_extid = None,
            huntName = Some ''h1'', huntDescription = None\<rparr>"

text \<open>A workspace that holds one saved search, made by someone else.\<close>

definition foreign_search :: resource where
  "foreign_search =
     \<lparr>res_id = ''/ws/savedSearches/manual'', res_name = ''manual'',
      res_properties = SavedSearchProperties
        \<lparr>category = ''General'', ss_displayName = ''by hand'', query = ''Heartbeat'',
         ss_description = [], tags = [], extid = None\<rparr>\<rparr>"

definition w_foreign :: "resource list world" where
  "w_foreign = w0\<lparr>workspace := [foreign_search]\<rparr>"

definition only_kql :: js_error where
  "only_kql = \<lparr>kind = OtherError, response_message = None,
                message = Some ''Only .kql files are allowed''\<rparr>"

section \<open>Registration flow\<close>

text \<open>
  C7. For every application name and every redirect URIs,
  \<open>registerApplication\<close> issues one request, a POST to \<open>/applications\<close>,
  whose payload has exactly one required-resource-access entry (Microsoft Graph,
  the delegated User.Read scope), whose \<open>web.redirectUris\<close> are the caller's
  (the empty list when the argument is omitted), and whose implicit-grant
  settings enable both id-token and access-token issuance.
\<close>

theorem registerApplication_payload:
  "\<exists>reg. requests (snd (registerApplication R appName redirect_uris c)) =
            requests c @ [Post ''/applications'' reg]
     \<and> reg_displayName reg = appName
     \<and> reg_requiredResourceAccess reg =
         [\<lparr>resourceAppId = ''00000003-0000-0000-c000-000000000000'',
           resourceAccess = [\<lparr>ra_id = ''e1fe6dd8-ba31-4d61-89e7-88639da4683d'', ra_type = ''Scope''\<rparr>]\<rparr>]
     \<and> redirectUris (web reg) = (case redirect_uris of None \<Rightarrow> [] | Some us \<Rightarrow> us)
     \<and> enableIdTokenIssuance (implicitGrantSettings (web reg))
     \<and> enableAccessTokenIssuance (implicitGrantSettings (web reg))"
  by (simp add: registerApplication_def api_def appRegistration_def graph_user_read_def Let_def
      split: prod.splits sum.splits)

text \<open>
  C1. Whatever the directory answers to the read of the application, with
  whatever list of required resource access, \<open>addSentinelPermissions\<close> then
  issues one PATCH whose list is the list read (empty when the field is absent)
  followed by the one Azure Service Management entry (user_impersonation):
  every entry the application had is written back, in place and in order.
\<close>

theorem addSentinelPermissions_appends:
  assumes "R (Get (application_path objectId)) (remote c) = (Inr app, s1)"
  shows "requests (snd (addSentinelPermissions R objectId c)) =
           requests c @ [Get (application_path objectId),
                         Patch (application_path objectId)
                           \<lparr>patch_requiredResourceAccess =
                              (case requiredResourceAccess app of None \<Rightarrow> [] | Some ps \<Rightarrow> ps) @
                              [\<lparr>resourceAppId = ''797f4846-ba00-4fd7-ba43-dac1f8f63013'',
                                resourceAccess = [\<lparr>ra_id = ''41094075-9dad-400e-a0bd-54e686782033'',
                                                   ra_type = ''Scope''\<rparr>]\<rparr>]\<rparr>]"
  using assms
  by (simp add: addSentinelPermissions_def addApiPermissions_def api_def existing_access_def
      managementPermissions_def split: prod.splits sum.splits)

theorem addSentinelPermissions_appends_witness:
  "directory_service up (Get (application_path ''object-hunts'')) [app0] = (Inr app0, [app0])
   \<and> requests (snd (addSentinelPermissions (directory_service up) ''object-hunts''
                      \<lparr>remote = [app0], requests = []\<rparr>)) =
       [Get ''/applications/object-hunts'',
        Patch ''/applications/object-hunts''
          \<lparr>patch_requiredResourceAccess = [graph_user_read, managementPermissions]\<rparr>]
   \<and> map requiredResourceAccess
         (remote (snd (addSentinelPermissions (directory_service up) ''object-hunts''
                         \<lparr>remote = [app0], requests = []\<rparr>))) =
       [Some [graph_user_read, managementPermissions]]"
proof -
  have g: "directory_service up (Get (application_path ''object-hunts''))
             (remote \<lparr>remote = [app0], requests = []\<rparr>) = (Inr app0, [app0])"
    by (simp add: directory_service_def up_def app0_def application_path_def)
  have r: "remote (snd (addSentinelPermissions (directory_service up) ''object-hunts''
                          \<lparr>remote = [app0], requests = []\<rparr>)) =
           [app0\<lparr>requiredResourceAccess := Some [graph_user_read, managementPermissions]\<rparr>]"
    by (simp add: addSentinelPermissions_def addApiPermissions_def api_def directory_service_def
        up_def app0_def application_path_def existing_access_def Let_def)
  show ?thesis
    using g r addSentinelPermissions_appends [where R = "directory_service up"
        and objectId = "''object-hunts''" and c = "\<lparr>remote = [app0], requests = []\<rparr>"
        and app = app0 and ?s1.0 = "[app0]"]
    by (simp add: app0_def application_path_def managementPermissions_def)
qed

text \<open>
  C9. When the application read back has no \<open>requiredResourceAccess\<close> (absent
  or null), \<open>addApiPermissions\<close> patches exactly the supplied permissions, and
  it returns \<open>true\<close> as soon as the directory accepts that PATCH: the missing
  field is no failure.
\<close>

theorem addApiPermissions_missing_field:
  assumes "R (Get (application_path objectId)) (remote c) = (Inr app, s1)"
    and "requiredResourceAccess app = None"
    and "R (Patch (application_path objectId) \<lparr>patch_requiredResourceAccess = permissions\<rparr>) s1
           = (Inr app', s2)"
  shows "addApiPermissions R objectId permissions c =
           (Inr True,
            \<lparr>remote = s2,
             requests = requests c @ [Get (application_path objectId),
                                      Patch (application_path objectId)
                                        \<lparr>patch_requiredResourceAccess = permissions\<rparr>]\<rparr>)"
  using assms
  by (simp add: addApiPermissions_def api_def existing_access_def)

theorem addApiPermissions_missing_field_witness:
  "addApiPermissions (directory_service up) ''object-hunts'' [managementPermissions]
     \<lparr>remote = [app0\<lparr>requiredResourceAccess := None\<rparr>], requests = []\<rparr> =
   (Inr True,
    \<lparr>remote = [app0\<lparr>requiredResourceAccess := Some [managementPermissions]\<rparr>],
     requests = [Get ''/applications/object-hunts'',
                 Patch ''/applications/object-hunts''
                   \<lparr>patch_requiredResourceAccess = [managementPermissions]\<rparr>]\<rparr>)"
proof -
  let ?a = "app0\<lparr>requiredResourceAccess := None\<rparr>"
  let ?c = "\<lparr>remote = [?a], requests = []\<rparr>"
  have g: "directory_service up (Get (application_path ''object-hunts'')) (remote ?c) = (Inr ?a, [?a])"
    by (simp add: directory_service_def up_def app0_def application_path_def)
  have n: "requiredResourceAccess ?a = None"
    by simp
  have p: "directory_service up
             (Patch (application_path ''object-hunts'')
                \<lparr>patch_requiredResourceAccess = [managementPermissions]\<rparr>) [?a]
           = (Inr (app0\<lparr>requiredResourceAccess := Some [managementPermissions]\<rparr>),
              [app0\<lparr>requiredResourceAccess := Some [managementPermissions]\<rparr>])"
    by (simp add: directory_service_def up_def app0_def application_path_def Let_def)
  show ?thesis
    using addApiPermissions_missing_field [OF g n p]
    by (simp add: application_path_def)
qed

lemma clientMessage_nonempty: "clientMessage error \<noteq> []"
  by (simp add: clientMessage_def or_default_def or_js_def truthy_def split: option.splits)

text \<open>
  C8. When \<open>registerApplication\<close> succeeds and \<open>addSentinelPermissions\<close>
  then fails, the route answers 500 with \<open>{error: message}\<close>, the message not
  empty. After the POST that created the application the route has issued the
  read of that application and at most the PATCH of its permissions: no DELETE,
  so the application stays registered.
\<close>

theorem register_app_no_rollback:
  assumes reg: "registerApplication R (or_default (body_appName req_body) DEFAULT_APP_NAME)
                  (Some (case body_redirectUris req_body of None \<Rightarrow> [] | Some us \<Rightarrow> us)) c
                = (Inr app, c1)"
    and perm: "addSentinelPermissions R (app_id app) c1 = (Inl error, c2)"
  shows "route_register_app R req_body c =
           (\<lparr>status = 500, reply = ErrorJson (clientMessage error)\<rparr>, c2)
     \<and> clientMessage error \<noteq> []
     \<and> (\<exists>reg. requests c1 = requests c @ [Post ''/applications'' reg])
     \<and> (\<exists>perms. requests c2 = requests c1 @ [Get (application_path (app_id app))]
              \<or> requests c2 = requests c1 @ [Get (application_path (app_id app)),
                                             Patch (application_path (app_id app)) perms])
     \<and> \<not> list_ex is_delete (drop (length (requests c)) (requests c2))"
proof -
  have r1: "\<exists>reg. requests c1 = requests c @ [Post ''/applications'' reg]"
    using reg by (auto simp: registerApplication_def api_def Let_def split: prod.splits sum.splits)
  have r2: "\<exists>perms. requests c2 = requests c1 @ [Get (application_path (app_id app))]
              \<or> requests c2 = requests c1 @ [Get (application_path (app_id app)),
                                             Patch (application_path (app_id app)) perms]"
    using perm
    by (auto simp: addSentinelPermissions_def addApiPermissions_def api_def
        split: prod.splits sum.splits)
  have r3: "\<not> list_ex is_delete (drop (length (requests c)) (requests c2))"
    using r1 r2 by auto
  have r4: "route_register_app R req_body c =
              (\<lparr>status = 500, reply = ErrorJson (clientMessage error)\<rparr>, c2)"
    using reg perm by (simp add: route_register_app_def Let_def sendErrorResponse_def)
  show ?thesis
    using r1 r2 r3 r4 clientMessage_nonempty by blast
qed

theorem register_app_no_rollback_witness:
  "\<exists>c2. route_register_app (directory_service patch_down)
            \<lparr>body_appName = None, body_redirectUris = None\<rparr> \<lparr>remote = [], requests = []\<rparr> =
          (\<lparr>status = 500, reply = ErrorJson ''Service unavailable''\<rparr>, c2)
       \<and> map app_id (remote c2) = [''object-Sentinel TH Integration App'']
       \<and> \<not> list_ex is_delete (requests c2)"
proof -
  let ?R = "directory_service patch_down"
  let ?b = "\<lparr>body_appName = None, body_redirectUris = None\<rparr>"
  let ?c = "\<lparr>remote = [], requests = []\<rparr> :: application list connection"
  let ?a = "\<lparr>app_id = ''object-Sentinel TH Integration App'',
             appId = ''client-Sentinel TH Integration App'',
             displayName = ''Sentinel TH Integration App'',
             requiredResourceAccess = Some [graph_user_read]\<rparr>"
  let ?c1 = "\<lparr>remote = [?a],
              requests = [Post ''/applications'' (appRegistration ''Sentinel TH Integration App'' [])]\<rparr>"
  let ?c2 = "\<lparr>remote = [?a],
              requests = [Post ''/applications'' (appRegistration ''Sentinel TH Integration App'' []),
                          Get ''/applications/object-Sentinel TH Integration App'',
                          Patch ''/applications/object-Sentinel TH Integration App''
                            \<lparr>patch_requiredResourceAccess = [graph_user_read, managementPermissions]\<rparr>]\<rparr>"
  have reg: "registerApplication ?R (or_default (body_appName ?b) DEFAULT_APP_NAME)
               (Some (case body_redirectUris ?b of None \<Rightarrow> [] | Some us \<Rightarrow> us)) ?c = (Inr ?a, ?c1)"
    by (simp add: registerApplication_def api_def directory_service_def patch_down_def
        or_default_def DEFAULT_APP_NAME_def appRegistration_def Let_def)
  have perm: "addSentinelPermissions ?R (app_id ?a) ?c1 = (Inl remote_error, ?c2)"
    by (simp add: addSentinelPermissions_def addApiPermissions_def api_def directory_service_def
        patch_down_def application_path_def existing_access_def)
  show ?thesis
    using register_app_no_rollback [OF reg perm]
    by (simp add: clientMessage_def remote_error_def or_js_def or_default_def truthy_def)
qed

section \<open>Purge route\<close>

text \<open>
  C2. For every PurgeResult that \<open>purgeSentinel\<close> returns, the route answers
  207 exactly when the query aggregate or the hunt aggregate carries an error
  (a non-empty error description), and 200 otherwise; the body is the
  PurgeResult in both cases.
\<close>

theorem route_purge_status:
  assumes "purgeSentinel w = (Inr result, w1)"
  shows "route_purge purgeSentinel w =
           (\<lparr>status = (if carries_error (queryCleanup result) \<or> carries_error (huntCleanup result)
                        then 207 else 200),
             reply = Json result\<rparr>, w1)"
  using assms
  by (simp add: route_purge_def carries_error_def truthy_def chained_error_def split: option.splits)

theorem route_purge_status_witness:
  "route_purge (\<lambda>w. (Inr \<lparr>queryCleanup = Some \<lparr>detail_message = None, detail_error = Some ''403 Forbidden''\<rparr>,
                            huntCleanup = Some \<lparr>detail_message = Some ''Deleted 2 hunts'', detail_error = None\<rparr>\<rparr>, w))
      (0::nat) =
     (\<lparr>status = 207,
       reply = Json \<lparr>queryCleanup = Some \<lparr>detail_message = None, detail_error = Some ''403 Forbidden''\<rparr>,
                     huntCleanup = Some \<lparr>detail_message = Some ''Deleted 2 hunts'', detail_error = None\<rparr>\<rparr>\<rparr>, 0)
   \<and> route_purge (\<lambda>w. (Inr \<lparr>queryCleanup = Some \<lparr>detail_message = Some ''Deleted 0 queries'', detail_error = None\<rparr>,
                            huntCleanup = Some \<lparr>detail_message = Some ''Deleted 0 hunts'', detail_error = None\<rparr>\<rparr>, w))
      (0::nat) =
     (\<lparr>status = 200,
       reply = Json \<lparr>queryCleanup = Some \<lparr>detail_message = Some ''Deleted 0 queries'', detail_error = None\<rparr>,
                     huntCleanup = Some \<lparr>detail_message = Some ''Deleted 0 hunts'', detail_error = None\<rparr>\<rparr>\<rparr>, 0)"
proof -
  let ?bad = "\<lparr>queryCleanup = Some \<lparr>detail_message = None, detail_error = Some ''403 Forbidden''\<rparr>,
               huntCleanup = Some \<lparr>detail_message = Some ''Deleted 2 hunts'', detail_error = None\<rparr>\<rparr>"
  let ?good = "\<lparr>queryCleanup = Some \<lparr>detail_message = Some ''Deleted 0 queries'', detail_error = None\<rparr>,
                huntCleanup = Some \<lparr>detail_message = Some ''Deleted 0 hunts'', detail_error = None\<rparr>\<rparr>"
  show ?thesis
    using route_purge_status [where purgeSentinel = "\<lambda>w::nat. (Inr ?bad, w)" and w = 0
                                and result = ?bad and ?w1.0 = 0]
      route_purge_status [where purgeSentinel = "\<lambda>w::nat. (Inr ?good, w)" and w = 0
                            and result = ?good and ?w1.0 = 0]
    by (simp add: carries_error_def)
qed

section \<open>Upload filter\<close>

lemma loop_plain:
  assumes "\<forall>i. k \<le> i \<and> i < k + m \<longrightarrow> p ! i \<noteq> CHAR_FORWARD_SLASH \<and> p ! i \<noteq> CHAR_DOT"
    and "startDot st = -1"
  shows "extname_loop p (k + m) st =
           extname_loop p k (if m = 0 then st
                             else if endPos st = -1
                                  then st\<lparr>matchedSlash := False, endPos := int (k + m)\<rparr>
                                  else st)"
  using assms
proof (induction m arbitrary: st)
  case 0
  then show ?case by simp
next
  case (Suc m)
  let ?st1 = "if endPos st = -1 then st\<lparr>matchedSlash := False, endPos := int (k + m) + 1\<rparr> else st"
  from Suc.prems have plain: "p ! (k + m) \<noteq> CHAR_FORWARD_SLASH" "p ! (k + m) \<noteq> CHAR_DOT"
    by auto
  have step: "extname_loop p (Suc (k + m)) st = extname_loop p (k + m) ?st1"
    using plain Suc.prems(2) by (simp add: Let_def)
  have sd: "startDot ?st1 = -1"
    using Suc.prems(2) by simp
  have ep: "endPos ?st1 \<noteq> -1"
    by simp
  have rest: "\<forall>i. k \<le> i \<and> i < k + m \<longrightarrow> p ! i \<noteq> CHAR_FORWARD_SLASH \<and> p ! i \<noteq> CHAR_DOT"
    using Suc.prems(1) by auto
  have "extname_loop p (k + m) ?st1 = extname_loop p k ?st1"
    using Suc.IH [OF rest sd] ep by (simp split: if_splits)
  with step show ?case
    by (simp add: add.commute)
qed

lemma loop_base:
  assumes "\<forall>i<k. p ! i \<noteq> CHAR_FORWARD_SLASH"
    and "startDot st \<noteq> -1" and "endPos st \<noteq> -1"
  shows "startDot (extname_loop p k st) = startDot st
       \<and> endPos (extname_loop p k st) = endPos st
       \<and> startPart (extname_loop p k st) = startPart st
       \<and> (0 < k \<or> preDotState st \<noteq> 0 \<longrightarrow> preDotState (extname_loop p k st) \<noteq> 0)"
  using assms
proof (induction k arbitrary: st)
  case 0
  then show ?case by simp
next
  case (Suc k)
  let ?st2 = "if p ! k = CHAR_DOT
              then (if preDotState st \<noteq> 1 then st\<lparr>preDotState := 1\<rparr> else st)
              else st\<lparr>preDotState := -1\<rparr>"
  have step: "extname_loop p (Suc k) st = extname_loop p k ?st2"
    using Suc.prems by (simp add: Let_def)
  have pre: "\<forall>i<k. p ! i \<noteq> CHAR_FORWARD_SLASH" "startDot ?st2 \<noteq> -1" "endPos ?st2 \<noteq> -1"
    using Suc.prems by auto
  have nz: "preDotState ?st2 \<noteq> 0"
    by simp
  from Suc.IH [OF pre] nz step show ?case
    by (simp split: if_splits)
qed

lemma extname_dot:
  assumes "b \<noteq> []" and "CHAR_FORWARD_SLASH \<notin> set b"
    and "e \<noteq> []" and "CHAR_FORWARD_SLASH \<notin> set e" and "CHAR_DOT \<notin> set e"
  shows "extname (b @ CHAR_DOT # e) = CHAR_DOT # e"
proof -
  let ?p = "b @ CHAR_DOT # e"
  let ?st1 = "extname_init\<lparr>matchedSlash := False, endPos := int (Suc (length b) + length e)\<rparr>"
  let ?st2 = "?st1\<lparr>startDot := int (length b)\<rparr>"
  have plain: "\<forall>i. Suc (length b) \<le> i \<and> i < Suc (length b) + length e
                 \<longrightarrow> ?p ! i \<noteq> CHAR_FORWARD_SLASH \<and> ?p ! i \<noteq> CHAR_DOT"
  proof (intro allI impI)
    fix i assume i: "Suc (length b) \<le> i \<and> i < Suc (length b) + length e"
    then have "?p ! i = e ! (i - Suc (length b))"
      by (simp add: nth_append nth_Cons')
    moreover from i have "e ! (i - Suc (length b)) \<in> set e"
      by (intro nth_mem) auto
    ultimately show "?p ! i \<noteq> CHAR_FORWARD_SLASH \<and> ?p ! i \<noteq> CHAR_DOT"
      using assms(4,5) by metis
  qed
  have ph1: "extname_loop ?p (Suc (length b) + length e) extname_init
               = extname_loop ?p (Suc (length b)) ?st1"
    using loop_plain [OF plain, of extname_init] assms(3)
    by (simp add: extname_init_def)
  have ph2: "extname_loop ?p (Suc (length b)) ?st1 = extname_loop ?p (length b) ?st2"
    by (simp add: Let_def extname_init_def)
  have base: "\<forall>i<length b. ?p ! i \<noteq> CHAR_FORWARD_SLASH"
    using assms(2) nth_mem [of _ b] by (fastforce simp: nth_append)
  have r: "startDot (extname_loop ?p (length b) ?st2) = int (length b)
         \<and> endPos (extname_loop ?p (length b) ?st2) = int (Suc (length b) + length e)
         \<and> preDotState (extname_loop ?p (length b) ?st2) \<noteq> 0"
    using loop_base [OF base, of ?st2] assms(1) by simp
  have len: "length ?p = Suc (length b) + length e"
    by simp
  show ?thesis
    unfolding extname_def len ph1 ph2 Let_def
    using r assms(3) by simp
qed

lemma kql_ascii: "ascii KQL_EXTENSION = [CHAR_DOT, 107, 113, 108]"
  by (simp add: ascii_def KQL_EXTENSION_def)

lemma lower_unit_head:
  assumes "spares_kql tbl" and "lower_unit tbl left c right = x # rest"
    and "x = CHAR_DOT \<or> x = 107 \<or> x = 113 \<or> x = 108"
  shows "rest = []
       \<and> (x = CHAR_DOT \<longrightarrow> c = CHAR_DOT)
       \<and> (x = 107 \<longrightarrow> c = 107 \<or> c = 75 \<or> c = 0x212A)
       \<and> (x = 113 \<longrightarrow> c = 113 \<or> c = 81)
       \<and> (x = 108 \<longrightarrow> c = 108 \<or> c = 76)"
proof (cases "128 \<le> c \<and> c \<noteq> 0x212A")
  case True
  with assms(2) have "x \<in> set (tbl left c right)"
    by (simp add: lower_unit_def)
  with assms(1,3) True show ?thesis
    unfolding spares_kql_def by blast
next
  case False
  with assms(2,3) show ?thesis
    by (auto simp: lower_unit_def split: if_splits)
qed

lemma lower_unit_nonempty: "spares_kql tbl \<Longrightarrow> lower_unit tbl left c right \<noteq> []"
  unfolding spares_kql_def lower_unit_def by (simp split: if_splits)

lemma lower_from_empty: "spares_kql tbl \<Longrightarrow> lower_from tbl left s = [] \<Longrightarrow> s = []"
  by (cases s) (auto dest: lower_unit_nonempty)

lemma lower_from_head:
  assumes "spares_kql tbl" and "lower_from tbl left s = x # ys"
    and "x = CHAR_DOT \<or> x = 107 \<or> x = 113 \<or> x = 108"
  shows "\<exists>c s'. s = c # s' \<and> lower_from tbl (left @ [c]) s' = ys
           \<and> (x = CHAR_DOT \<longrightarrow> c = CHAR_DOT)
           \<and> (x = 107 \<longrightarrow> c = 107 \<or> c = 75 \<or> c = 0x212A)
           \<and> (x = 113 \<longrightarrow> c = 113 \<or> c = 81)
           \<and> (x = 108 \<longrightarrow> c = 108 \<or> c = 76)"
proof (cases s)
  case Nil
  with assms(2) show ?thesis by simp
next
  case (Cons c s')
  from lower_unit_nonempty [OF assms(1), of left c s']
  obtain u us where u: "lower_unit tbl left c s' = u # us"
    by (cases "lower_unit tbl left c s'") auto
  with assms(2) Cons have ux: "u = x"
    by simp
  from lower_unit_head [OF assms(1) u [unfolded ux] assms(3)] u ux assms(2) Cons
  show ?thesis
    by simp
qed

lemma lower_kql_spelling:
  assumes "spares_kql tbl" and "toLowerCase tbl e = [CHAR_DOT, 107, 113, 108]"
  shows "kql_spelling e"
proof -
  from assms(2) have 0: "lower_from tbl [] e = [CHAR_DOT, 107, 113, 108]"
    by (simp add: toLowerCase_def)
  from lower_from_head [OF assms(1) 0] obtain d s1 where
    d: "e = d # s1" "lower_from tbl ([] @ [d]) s1 = [107, 113, 108]" "d = CHAR_DOT"
    by auto
  from lower_from_head [OF assms(1) d(2)] obtain k s2 where
    k: "s1 = k # s2" "lower_from tbl (([] @ [d]) @ [k]) s2 = [113, 108]"
       "k = 107 \<or> k = 75 \<or> k = 0x212A"
    by auto
  from lower_from_head [OF assms(1) k(2)] obtain q s3 where
    q: "s2 = q # s3" "lower_from tbl ((([] @ [d]) @ [k]) @ [q]) s3 = [108]" "q = 113 \<or> q = 81"
    by auto
  from lower_from_head [OF assms(1) q(2)] obtain l s4 where
    l: "s3 = l # s4" "lower_from tbl (((([] @ [d]) @ [k]) @ [q]) @ [l]) s4 = []" "l = 108 \<or> l = 76"
    by auto
  from lower_from_empty [OF assms(1) l(2)] have "s4 = []" .
  with d k q l show ?thesis
    by (simp add: kql_spelling_def)
qed

lemma spelling_lower_kql:
  assumes "kql_spelling e"
  shows "toLowerCase tbl e = [CHAR_DOT, 107, 113, 108]"
proof -
  from assms obtain d k q l where e: "e = [d, k, q, l]"
    and c: "d = CHAR_DOT" "k = 107 \<or> k = 75 \<or> k = 0x212A" "q = 113 \<or> q = 81" "l = 108 \<or> l = 76"
    by (auto simp: kql_spelling_def split: list.splits)
  have "lower_unit tbl x d y = [CHAR_DOT]" for x y
    using c(1) by (simp add: lower_unit_def)
  moreover have "lower_unit tbl x k y = [107]" for x y
    using c(2) by (auto simp: lower_unit_def)
  moreover have "lower_unit tbl x q y = [113]" for x y
    using c(3) by (auto simp: lower_unit_def)
  moreover have "lower_unit tbl x l y = [108]" for x y
    using c(4) by (auto simp: lower_unit_def)
  ultimately show ?thesis
    by (simp add: e toLowerCase_def)
qed

lemma spares_keep: "spares_kql keep"
  by (simp add: spares_kql_def keep_def)

text \<open>
  C10. The filter accepts a file exactly when the lower-cased extension of its
  original name is \<open>.kql\<close>; with tables that spare the four characters, that
  is exactly when the extension is a spelling of \<open>.kql\<close> in any mix of upper
  and lower case (the Kelvin sign counts as a \<open>K\<close>). With any other extension
  it answers with the error "Only .kql files are allowed": for a part the
  middleware hands to the filter (its file name is not empty) the middleware
  ends with an error, the handler does not run and nothing is stored. A part
  with an empty file name never reaches the filter: the handler answers 400.
  In particular a name made of a non-empty base without a slash followed by any
  spelling of \<open>.kql\<close> is accepted, whatever the tables.
\<close>

theorem fileFilter_kql:
  "fileFilter tbl file =
     (if toLowerCase tbl (extname (originalname file)) = ascii ''.kql'' then Inr True else Inl only_kql)
   \<and> (spares_kql tbl \<longrightarrow>
        (fileFilter tbl file = Inr True) = kql_spelling (extname (originalname file)))
   \<and> (originalname file \<noteq> [] \<and> toLowerCase tbl (extname (originalname file)) \<noteq> ascii ''.kql''
        \<longrightarrow> route_upload tbl f (Some file) filename w =
              (NextError (if fieldname file \<noteq> ''file'' then unexpected_field else only_kql), w))
   \<and> (originalname file = []
        \<longrightarrow> route_upload tbl f (Some file) filename w =
              (Sent \<lparr>status = 400, reply = ErrorJson ''No file uploaded''\<rparr>, w))
   \<and> (base \<noteq> [] \<and> CHAR_FORWARD_SLASH \<notin> set base \<and> kql_spelling e
        \<longrightarrow> fileFilter tbl (file\<lparr>originalname := base @ e\<rparr>) = Inr True)"
proof -
  have k: "ascii ''.kql'' = [CHAR_DOT, 107, 113, 108]"
    by (simp add: ascii_def)
  have a: "fileFilter tbl file =
     (if toLowerCase tbl (extname (originalname file)) = ascii ''.kql'' then Inr True else Inl only_kql)"
    by (simp add: fileFilter_def KQL_EXTENSION_def only_kql_def Let_def)
  have s: "(fileFilter tbl file = Inr True) = kql_spelling (extname (originalname file))"
    if "spares_kql tbl"
    using a k lower_kql_spelling [OF that, of "extname (originalname file)"]
      spelling_lower_kql [of "extname (originalname file)" tbl]
    by auto
  have b: "route_upload tbl f (Some file) filename w =
             (NextError (if fieldname file \<noteq> ''file'' then unexpected_field else only_kql), w)"
    if "originalname file \<noteq> []" "toLowerCase tbl (extname (originalname file)) \<noteq> ascii ''.kql''"
    using that a by (simp add: route_upload_def upload_single_def)
  have n: "route_upload tbl f (Some file) filename w =
             (Sent \<lparr>status = 400, reply = ErrorJson ''No file uploaded''\<rparr>, w)"
    if "originalname file = []"
    using that by (simp add: route_upload_def upload_single_def upload_handler_def)
  have c: "fileFilter tbl (file\<lparr>originalname := base @ e\<rparr>) = Inr True"
    if "base \<noteq> []" "CHAR_FORWARD_SLASH \<notin> set base" "kql_spelling e"
  proof -
    from that(3) obtain x where e: "e = CHAR_DOT # x" "x \<noteq> []"
      "CHAR_FORWARD_SLASH \<notin> set x" "CHAR_DOT \<notin> set x"
      by (auto simp: kql_spelling_def split: list.splits)
    from extname_dot [OF that(1,2) e(2,3,4)] e(1)
    have "extname (base @ e) = e"
      by simp
    with spelling_lower_kql [OF that(3), of tbl] k show ?thesis
      by (simp add: fileFilter_def KQL_EXTENSION_def Let_def)
  qed
  from a s b n c show ?thesis by blast
qed

theorem fileFilter_kql_witness:
  "spares_kql keep
   \<and> fileFilter keep part0 = Inr True
   \<and> fileFilter keep (part0\<lparr>originalname := ascii ''query'' @ [CHAR_DOT, 0x212A, 81, 108]\<rparr>) = Inr True
   \<and> fileFilter keep (part0\<lparr>originalname := ascii ''hunt.kql.txt''\<rparr>) = Inl only_kql
   \<and> route_upload keep (createQueryFromFile cfg0 (workspace_service cfg0 siem_up))
       (Some (part0\<lparr>originalname := ascii ''hunt.kql.txt''\<rparr>)) ''3f2a'' w0 = (NextError only_kql, w0)
   \<and> route_upload keep (createQueryFromFile cfg0 (workspace_service cfg0 siem_up))
       (Some (part0\<lparr>originalname := []\<rparr>)) ''3f2a'' w0
       = (Sent \<lparr>status = 400, reply = ErrorJson ''No file uploaded''\<rparr>, w0)"
proof -
  let ?f = "createQueryFromFile cfg0 (workspace_service cfg0 siem_up)"
  let ?txt = "part0\<lparr>originalname := ascii ''hunt.kql.txt''\<rparr>"
  have e1: "kql_spelling (extname (originalname part0))"
    by code_simp
  have e2: "\<not> kql_spelling (extname (originalname ?txt))"
    by code_simp
  have e3: "originalname ?txt \<noteq> []" "fieldname ?txt = ''file''"
    by (simp_all add: part0_def ascii_def)
  have e4: "ascii ''query'' \<noteq> []" "CHAR_FORWARD_SLASH \<notin> set (ascii ''query'')"
    "kql_spelling [CHAR_DOT, 0x212A, 81, 108]"
    by (simp_all add: ascii_def kql_spelling_def)
  have e5: "originalname (part0\<lparr>originalname := []\<rparr>) = []"
    by simp
  note t1 = fileFilter_kql [of keep part0 ?f "''3f2a''" w0 "ascii ''query''" "[CHAR_DOT, 0x212A, 81, 108]"]
  note t2 = fileFilter_kql [of keep ?txt ?f "''3f2a''" w0 "ascii ''query''" "[CHAR_DOT, 0x212A, 81, 108]"]
  note t3 = fileFilter_kql [of keep "part0\<lparr>originalname := []\<rparr>" ?f "''3f2a''" w0
      "ascii ''query''" "[CHAR_DOT, 0x212A, 81, 108]"]
  have a: "fileFilter keep part0 = Inr True"
    using t1 spares_keep e1 by blast
  have b: "fileFilter keep (part0\<lparr>originalname := ascii ''query'' @ [CHAR_DOT, 0x212A, 81, 108]\<rparr>) = Inr True"
    using t1 e4 by simp
  have c: "fileFilter keep ?txt = Inl only_kql"
    using t2 spares_keep e2 by (auto split: if_splits)
  have d: "route_upload keep ?f (Some ?txt) ''3f2a'' w0 = (NextError only_kql, w0)"
    using t2 c e3 by (auto split: if_splits)
  have n: "route_upload keep ?f (Some (part0\<lparr>originalname := []\<rparr>)) ''3f2a'' w0
       = (Sent \<lparr>status = 400, reply = ErrorJson ''No file uploaded''\<rparr>, w0)"
    using t3 e5 by blast
  from spares_keep a b c d n show ?thesis by blast
qed

section \<open>Upload route\<close>

lemma staged_path:
  "upload_single tbl part filename w = (Inr (Some file), w1) \<Longrightarrow>
     file_path file = UPLOADS_DIR @ ''/'' @ filename \<and> files w1 (file_path file) \<noteq> None"
  by (auto simp: upload_single_def Let_def split: option.splits if_splits sum.splits bool.splits)

lemma upload_catch_effect:
  assumes "p \<noteq> []" and "file_path file = p" and "upload_catch error file w = (r, w')"
  shows "r = sendErrorResponse error 500
       \<and> existsSync p w' = (files w p \<noteq> None \<and> unlink_fault w (unlinks w) \<noteq> None)"
  using assms
  by (auto simp: upload_catch_def Let_def existsSync_def unlinkSync_def
      split: if_splits option.splits prod.splits sum.splits)

lemma unlinkSync_refused:
  assumes "unlinkSync p w = (Inl error, w')"
  shows "files w' = files w \<and> unlink_fault w' = unlink_fault w \<and> unlinks w' = unlinks w + 1"
  using assms by (auto simp: unlinkSync_def Let_def split: if_splits option.splits)

lemma unlinkSync_done:
  assumes "unlinkSync p w = (Inr u, w')"
  shows "files w' p = None \<and> files w p \<noteq> None \<and> unlink_fault w (unlinks w) = None"
  using assms by (auto simp: unlinkSync_def Let_def split: if_splits option.splits)

lemma filter0: "fileFilter keep part0 = Inr True"
  by code_simp

lemma staged0:
  "upload_single keep (Some (part0\<lparr>content := c\<rparr>)) ''3f2a'' w =
     (Inr (Some \<lparr>file_originalname = ascii ''Hunt.KQL'', file_path = ''uploads/3f2a''\<rparr>),
      w\<lparr>files := (files w)(''uploads/3f2a'' \<mapsto> c)\<rparr>)"
proof -
  have "fileFilter keep (part0\<lparr>content := c\<rparr>) = Inr True"
    using filter0 by (simp add: fileFilter_def part0_def)
  then show ?thesis
    by (simp add: upload_single_def part0_def UPLOADS_DIR_def Let_def ascii_def)
qed

text \<open>
  C6, as amended. For every request for which the middleware has staged a
  file, and for every behaviour of the query-creation call, the handler runs and
  tries to unlink the staged file on both paths: before the 201 when the
  creation succeeded, and in the \<open>catch\<close> block when the creation or that
  first unlink failed. When it has answered, the staged path is gone, unless the
  file was still there after the creation call and the file system refused every
  unlink the handler attempted; then the file stays and the answer is 500. The
  answer is 201 with the result when the creation and the unlink succeeded, and
  500 with the message of the first error otherwise.
\<close>

theorem upload_cleans_up:
  assumes staged: "upload_single tbl part filename w = (Inr (Some file), w1)"
    and run: "(f :: string \<Rightarrow> 's world \<Rightarrow> (js_error + 'r) \<times> 's world) (file_path file) w1 = (res, w2)"
  shows "\<exists>r w'. route_upload tbl f part filename w = (Sent r, w')
           \<and> existsSync (file_path file) w' = unlinks_refused (\<not> isl res) (file_path file) w2
           \<and> r = (case res of
                    Inl error \<Rightarrow> sendErrorResponse error 500
                  | Inr result \<Rightarrow>
                      (case fst (unlinkSync (file_path file) w2) of
                         Inl error \<Rightarrow> sendErrorResponse error 500
                       | Inr u \<Rightarrow> \<lparr>status = 201, reply = Json result\<rparr>))"
proof -
  let ?p = "file_path file"
  from staged_path [OF staged] have ne: "?p \<noteq> []"
    by (simp add: UPLOADS_DIR_def)
  show ?thesis
  proof (cases res)
    case (Inl error)
    obtain r w' where u: "upload_catch error file w2 = (r :: 'r response, w')"
      by (cases "upload_catch error file w2 :: 'r response \<times> 's world")
    from upload_catch_effect [OF ne refl u] u run Inl staged show ?thesis
      by (simp add: route_upload_def upload_handler_def unlinks_refused_def)
  next
    case (Inr result)
    obtain a w3 where first: "unlinkSync ?p w2 = (a, w3)"
      by (cases "unlinkSync ?p w2")
    show ?thesis
    proof (cases a)
      case removed: (Inr u)
      from unlinkSync_done [OF first [unfolded removed]] first removed run Inr staged show ?thesis
        by (simp add: route_upload_def upload_handler_def unlinks_refused_def existsSync_def)
    next
      case refused: (Inl error)
      obtain r w' where u: "upload_catch error file w3 = (r :: 'r response, w')"
        by (cases "upload_catch error file w3 :: 'r response \<times> 's world")
      have same: "files w3 = files w2" "unlink_fault w3 = unlink_fault w2" "unlinks w3 = unlinks w2 + 1"
        using unlinkSync_refused [OF first [unfolded refused]] by simp_all
      have why: "files w2 ?p \<noteq> None \<longrightarrow> unlink_fault w2 (unlinks w2) \<noteq> None"
        using first refused by (auto simp: unlinkSync_def Let_def split: if_splits option.splits)
      from upload_catch_effect [OF ne refl u] same why
      have "existsSync ?p w' = unlinks_refused True ?p w2" "r = sendErrorResponse error 500"
        by (auto simp: unlinks_refused_def)
      with u first refused run Inr staged show ?thesis
        by (simp add: route_upload_def upload_handler_def)
    qed
  qed
qed

theorem upload_cleans_up_witness:
  "(\<exists>file w1. upload_single keep (Some part0) ''3f2a'' w0 = (Inr (Some file), w1)
       \<and> file_path file = ''uploads/3f2a'')
   \<and> (\<exists>r w'. route_upload keep (createQueryFromFile cfg0 (workspace_service cfg0 siem_up))
                 (Some part0) ''3f2a'' w0 = (Sent r, w')
          \<and> \<not> existsSync ''uploads/3f2a'' w' \<and> status r = 201)
   \<and> (\<exists>r w'. route_upload keep (createQueryFromFile cfg0 (workspace_service cfg0 siem_up))
                 (Some part0) ''3f2a'' w_busy = (Sent r, w')
          \<and> \<not> existsSync ''uploads/3f2a'' w' \<and> status r = 500)"
proof -
  let ?f = "createQueryFromFile cfg0 (workspace_service cfg0 siem_up)"
  let ?file = "\<lparr>file_originalname = ascii ''Hunt.KQL'', file_path = ''uploads/3f2a''\<rparr>"
  let ?w1 = "w0\<lparr>files := (files w0)(''uploads/3f2a'' \<mapsto> ''Heartbeat'')\<rparr>"
  let ?b1 = "w_busy\<lparr>files := (files w_busy)(''uploads/3f2a'' \<mapsto> ''Heartbeat'')\<rparr>"
  have p: "part0\<lparr>content := ''Heartbeat''\<rparr> = part0"
    by (simp add: part0_def)
  have s: "upload_single keep (Some part0) ''3f2a'' w0 = (Inr (Some ?file), ?w1)"
    using staged0 [of "''Heartbeat''" w0] p by simp
  have sb: "upload_single keep (Some part0) ''3f2a'' w_busy = (Inr (Some ?file), ?b1)"
    using staged0 [of "''Heartbeat''" w_busy] p by simp
  have c: "\<not> isl (fst (?f ''uploads/3f2a'' ?w1))
         \<and> \<not> unlinks_refused True ''uploads/3f2a'' (snd (?f ''uploads/3f2a'' ?w1))
         \<and> isl (fst (unlinkSync ''uploads/3f2a'' (snd (?f ''uploads/3f2a'' ?w1)))) = False"
    by (simp add: createQueryFromFile_def createQueryFromInput_def cfg0_def w0_def uuidv4_def
        siem_call_def workspace_service_def siem_up_def unlinks_refused_def unlinkSync_def Let_def)
  have cb: "\<not> isl (fst (?f ''uploads/3f2a'' ?b1))
         \<and> \<not> unlinks_refused True ''uploads/3f2a'' (snd (?f ''uploads/3f2a'' ?b1))
         \<and> isl (fst (unlinkSync ''uploads/3f2a'' (snd (?f ''uploads/3f2a'' ?b1))))"
    by (simp add: createQueryFromFile_def createQueryFromInput_def cfg0_def w_busy_def w0_def
        uuidv4_def siem_call_def workspace_service_def siem_up_def unlinks_refused_def
        unlinkSync_def Let_def)
  from upload_cleans_up [OF s, of ?f "fst (?f ''uploads/3f2a'' ?w1)" "snd (?f ''uploads/3f2a'' ?w1)"] c
  have a: "\<exists>r w'. route_upload keep ?f (Some part0) ''3f2a'' w0 = (Sent r, w')
             \<and> \<not> existsSync ''uploads/3f2a'' w' \<and> status r = 201"
    by (auto split: sum.splits)
  from upload_cleans_up [OF sb, of ?f "fst (?f ''uploads/3f2a'' ?b1)" "snd (?f ''uploads/3f2a'' ?b1)"] cb
  have b: "\<exists>r w'. route_upload keep ?f (Some part0) ''3f2a'' w_busy = (Sent r, w')
             \<and> \<not> existsSync ''uploads/3f2a'' w' \<and> status r = 500"
    by (auto simp: sendErrorResponse_def split: sum.splits)
  from s a b show ?thesis
    by simp
qed

text \<open>
  C6, as stated, fails where the file system refuses to unlink the staged
  file: after a creation that succeeded both unlinks throw, the second error is
  swallowed, the route answers 500 and the file is still there; after a creation
  that failed the one unlink of the \<open>catch\<close> block throws and the file is
  still there.
\<close>

theorem upload_file_persists:
  "existsSync ''uploads/3f2a''
     (snd (route_upload keep (createQueryFromFile cfg0 (workspace_service cfg0 siem_up))
             (Some part0) ''3f2a'' w_locked))
   \<and> fst (route_upload keep (createQueryFromFile cfg0 (workspace_service cfg0 siem_up))
             (Some part0) ''3f2a'' w_locked)
       = Sent \<lparr>status = 500,
               reply = ErrorJson (''EPERM: operation not permitted, unlink '' @ quoted ''uploads/3f2a'')\<rparr>
   \<and> existsSync ''uploads/3f2a''
       (snd (route_upload keep (createQueryFromFile cfg0 (workspace_service cfg0 siem_up))
               (Some (part0\<lparr>content := []\<rparr>)) ''3f2a'' w_locked))
   \<and> fst (route_upload keep (createQueryFromFile cfg0 (workspace_service cfg0 siem_up))
             (Some (part0\<lparr>content := []\<rparr>)) ''3f2a'' w_locked)
       = Sent \<lparr>status = 500, reply = ErrorJson ''no KQL query found in file''\<rparr>"
proof -
  have p: "part0\<lparr>content := ''Heartbeat''\<rparr> = part0"
    by (simp add: part0_def)
  have a: "route_upload keep (createQueryFromFile cfg0 (workspace_service cfg0 siem_up))
             (Some (part0\<lparr>content := ''Heartbeat''\<rparr>)) ''3f2a'' w_locked
           = (Sent \<lparr>status = 500,
                     reply = ErrorJson (''EPERM: operation not permitted, unlink '' @ quoted ''uploads/3f2a'')\<rparr>,
              w_locked\<lparr>workspace := workspace (snd (createQueryFromFile cfg0 (workspace_service cfg0 siem_up) ''uploads/3f2a''
                                   (w_locked\<lparr>files := (files w_locked)(''uploads/3f2a'' \<mapsto> ''Heartbeat'')\<rparr>))),
                        issued := issued (snd (createQueryFromFile cfg0 (workspace_service cfg0 siem_up) ''uploads/3f2a''
                                   (w_locked\<lparr>files := (files w_locked)(''uploads/3f2a'' \<mapsto> ''Heartbeat'')\<rparr>))),
                        files := (files w_locked)(''uploads/3f2a'' \<mapsto> ''Heartbeat''),
                        unlinks := 2, drawn := 1\<rparr>)"
    unfolding route_upload_def staged0
    by (simp add: upload_handler_def upload_catch_def createQueryFromFile_def
        createQueryFromInput_def cfg0_def w_locked_def w0_def uuidv4_def siem_call_def
        workspace_service_def siem_up_def unlinkSync_def existsSync_def Let_def
        sendErrorResponse_def clientMessage_def or_js_def or_default_def truthy_def eperm_def quoted_def)
  have b: "route_upload keep (createQueryFromFile cfg0 (workspace_service cfg0 siem_up))
             (Some (part0\<lparr>content := []\<rparr>)) ''3f2a'' w_locked
           = (Sent \<lparr>status = 500, reply = ErrorJson ''no KQL query found in file''\<rparr>,
              w_locked\<lparr>files := (files w_locked)(''uploads/3f2a'' \<mapsto> []), unlinks := 1\<rparr>)"
    unfolding route_upload_def staged0
    by (simp add: upload_handler_def upload_catch_def createQueryFromFile_def
        cfg0_def w_locked_def w0_def unlinkSync_def existsSync_def Let_def parse_error_def
        sendErrorResponse_def clientMessage_def or_js_def or_default_def truthy_def eperm_def)
  from a b p show ?thesis
    by (simp add: existsSync_def)
qed

section \<open>Query route\<close>

text \<open>
  C4. A body without \<open>name\<close>, or without \<open>query\<close>, makes
  \<open>createQueryFromInput\<close> fail with a ValidationError and no remote call:
  the world is as it was. The route answers it with status 500, as it answers
  anything thrown, and with \<open>{error: message}\<close>; it has no answer with
  status 400.
\<close>

theorem hunting_queries_validation_status:
  "route_hunting_queries (createQueryFromInput cfg S) (payload\<lparr>in_name := None\<rparr>) w =
     (\<lparr>status = 500, reply = ErrorJson ''name and query are required''\<rparr>, w)
   \<and> route_hunting_queries (createQueryFromInput cfg S) (payload\<lparr>in_query := None\<rparr>) w =
     (\<lparr>status = 500, reply = ErrorJson ''name and query are required''\<rparr>, w)
   \<and> kind (validation_error msg) = ValidationError
   \<and> status (fst (route_hunting_queries (\<lambda>b x. (Inl (validation_error msg) :: js_error + resource, x)) req_body w)) = 500"
  by (simp add: route_hunting_queries_def forward_route_def createQueryFromInput_def
      sendErrorResponse_def clientMessage_def validation_error_def or_js_def or_default_def truthy_def
      split: option.splits)

section \<open>Bulk create-and-link\<close>

lemma siem_call_issued:
  "siem_call S req w = (resp, w') \<Longrightarrow>
     issued w' = issued w @ [req] \<and> S req (workspace w) = (resp, workspace w')
     \<and> files w' = files w \<and> entropy w' = entropy w \<and> drawn w' = drawn w"
  by (auto simp: siem_call_def split: prod.splits)

lemma query_tags_stamped:
  "list_ex (\<lambda>t. tag_value t = attribution_label cfg) (query_tags cfg payload)"
  by (simp add: query_tags_def)

lemma createQueryFromInput_ok:
  assumes "createQueryFromInput cfg S payload w = (Inr savedSearch, w1)"
  shows "\<exists>n1 p1. issued w1 = issued w @ [CreateSavedSearch n1 p1]
           \<and> S (CreateSavedSearch n1 p1) (workspace w) = (Inr savedSearch, workspace w1)
           \<and> stamped cfg (CreateSavedSearch n1 p1)
           \<and> in_name payload \<noteq> None \<and> in_query payload \<noteq> None"
proof -
  from assms obtain n q where nq: "in_name payload = Some n" "in_query payload = Some q"
    by (auto simp: createQueryFromInput_def split: option.splits)
  let ?w = "w\<lparr>drawn := drawn w + 1\<rparr>"
  let ?req = "CreateSavedSearch (entropy w (drawn w))
                \<lparr>category = query_category cfg, ss_displayName = n, query = q,
                 ss_description = text_or_empty (in_description payload),
                 tags = query_tags cfg payload, extid = in_extid payload\<rparr>"
  from assms nq have "siem_call S ?req ?w = (Inr savedSearch, w1)"
    by (simp add: createQueryFromInput_def uuidv4_def)
  from siem_call_issued [OF this] have "issued w1 = issued w @ [?req]"
    "S ?req (workspace w) = (Inr savedSearch, workspace w1)"
    by simp_all
  moreover have "stamped cfg ?req"
    by (simp add: stamped_def carries_label_def query_tags_stamped)
  ultimately show ?thesis using nq by blast
qed

lemma createSentinelHunt_failed:
  assumes "createSentinelHunt cfg S hp w1 = (Inl error, w2)" and "hunt_name hp = Some h"
  shows "\<exists>n2 p2. issued w2 = issued w1 @ [CreateHunt n2 p2]
           \<and> S (CreateHunt n2 p2) (workspace w1) = (Inl error, workspace w2)"
proof -
  let ?w = "w1\<lparr>drawn := drawn w1 + 1\<rparr>"
  let ?req = "CreateHunt (entropy w1 (drawn w1))
                \<lparr>hunt_displayName = h, hunt_description = text_or_empty (hunt_desc hp),
                 hunt_status = new_hunt_status cfg, hunt_labels = [attribution_label cfg]\<rparr>"
  from assms have "siem_call S ?req ?w = (Inl error, w2)"
    by (simp add: createSentinelHunt_def uuidv4_def)
  from siem_call_issued [OF this] show ?thesis
    by auto
qed

lemma siem_call_new:
  "issued (snd (siem_call S req w)) = issued w @ [req]"
  by (simp add: siem_call_def split: prod.splits)

lemma createQueryFromInput_new:
  "\<exists>new. issued (snd (createQueryFromInput cfg S payload w)) = issued w @ new
      \<and> (new = [] \<or> (\<exists>n p. new = [CreateSavedSearch n p])) \<and> list_all (stamped cfg) new"
  by (auto simp: createQueryFromInput_def uuidv4_def siem_call_new stamped_def carries_label_def
      query_tags_stamped split: option.splits)

lemma createQueryFromFile_new:
  "\<exists>new. issued (snd (createQueryFromFile cfg S p w)) = issued w @ new
      \<and> (new = [] \<or> (\<exists>n p. new = [CreateSavedSearch n p])) \<and> list_all (stamped cfg) new"
  using createQueryFromInput_new [of cfg S _ w]
  by (auto simp: createQueryFromFile_def split: option.splits)

lemma createSentinelHunt_new:
  "\<exists>new. issued (snd (createSentinelHunt cfg S payload w)) = issued w @ new
      \<and> (new = [] \<or> (\<exists>n p. new = [CreateHunt n p])) \<and> list_all (stamped cfg) new"
  by (auto simp: createSentinelHunt_def uuidv4_def siem_call_new stamped_def carries_label_def
      split: option.splits)

lemma linkQueryToHunt_new:
  "\<exists>new. issued (snd (linkQueryToHunt cfg S payload w)) = issued w @ new
      \<and> (new = [] \<or> (\<exists>h n p. new = [CreateRelation h n p])) \<and> list_all (stamped cfg) new"
  by (auto simp: linkQueryToHunt_def uuidv4_def siem_call_new stamped_def carries_label_def
      split: option.splits)

lemma createHuntWithQuery_new:
  "\<exists>new. issued (snd (createHuntWithQuery cfg S payload w)) = issued w @ new
      \<and> in_bulk_order new \<and> list_all (stamped cfg) new"
proof -
  obtain r1 w1 where q: "createQueryFromInput cfg S payload w = (r1, w1)"
    by (cases "createQueryFromInput cfg S payload w")
  from createQueryFromInput_new [of cfg S payload w] q
  obtain new1 where n1: "issued w1 = issued w @ new1"
      "new1 = [] \<or> (\<exists>n p. new1 = [CreateSavedSearch n p])" "list_all (stamped cfg) new1"
    by auto
  let ?hp = "\<lparr>hunt_name = huntName payload, hunt_desc = huntDescription payload\<rparr>"
  obtain r2 w2 where h: "createSentinelHunt cfg S ?hp w1 = (r2, w2)"
    by (cases "createSentinelHunt cfg S ?hp w1")
  from createSentinelHunt_new [of cfg S ?hp w1] h
  obtain new2 where n2: "issued w2 = issued w1 @ new2"
      "new2 = [] \<or> (\<exists>n p. new2 = [CreateHunt n p])" "list_all (stamped cfg) new2"
    by auto
  show ?thesis
  proof (cases "in_name payload = None \<or> in_query payload = None \<or> huntName payload = None")
    case True
    then show ?thesis by (simp add: createHuntWithQuery_def)
  next
    case valid: False
    then have new1: "\<exists>n p. new1 = [CreateSavedSearch n p]"
      using q n1(1) by (auto simp: createQueryFromInput_def uuidv4_def dest!: siem_call_issued)
    from valid have new2: "\<exists>n p. new2 = [CreateHunt n p]"
      using h n2(1) by (auto simp: createSentinelHunt_def uuidv4_def dest!: siem_call_issued)
    show ?thesis
    proof (cases r1)
      case (Inl e)
      with valid q n1 new1 show ?thesis
        by (auto simp: createHuntWithQuery_def)
    next
      case ss: (Inr savedSearch)
      show ?thesis
      proof (cases r2)
        case (Inl e)
        with valid q h ss n1 n2 new1 new2 show ?thesis
          by (auto simp: createHuntWithQuery_def)
      next
        case (Inr hunt)
        let ?lp = "\<lparr>huntId = Some (res_name hunt), queryResourceId = Some (res_id savedSearch)\<rparr>"
        from linkQueryToHunt_new [of cfg S ?lp w2]
        obtain new3 where n3: "issued (snd (linkQueryToHunt cfg S ?lp w2)) = issued w2 @ new3"
          "new3 = [] \<or> (\<exists>h n p. new3 = [CreateRelation h n p])" "list_all (stamped cfg) new3"
          by auto
        have "createHuntWithQuery cfg S payload w = linkQueryToHunt cfg S ?lp w2"
          using valid q h ss Inr by (auto simp: createHuntWithQuery_def)
        with n1 n2 n3 new1 new2 show ?thesis
          by auto
      qed
    qed
  qed
qed

lemma create_new:
  "\<exists>new. issued (snd (create cfg S call w)) = issued w @ new \<and> list_all (stamped cfg) new"
proof (cases call)
  case (FromInput x)
  with createQueryFromInput_new [of cfg S x w] show ?thesis by auto
next
  case (FromFile x)
  with createQueryFromFile_new [of cfg S x w] show ?thesis by auto
next
  case (NewHunt x)
  with createSentinelHunt_new [of cfg S x w] show ?thesis by auto
next
  case (Link x)
  with linkQueryToHunt_new [of cfg S x w] show ?thesis by auto
next
  case (Bulk x)
  with createHuntWithQuery_new [of cfg S x w] show ?thesis by auto
qed

text \<open>
  C3. The requests of \<open>createHuntWithQuery\<close> are always a prefix of:
  create the saved search, create the hunt, create the relation, in that order.
  When the saved search was created and the creation of the hunt fails, the
  operation returns that error (the route answers 500 with its message), it has
  issued exactly the two requests and no other: no relation is created, nothing
  is deleted, and the workspace is left as the hunt request left it, with the
  saved search, which carries the label.
\<close>

theorem bulk_hunt_failure_leaves_query:
  "in_bulk_order (drop (length (issued w)) (issued (snd (createHuntWithQuery cfg S payload w))))
   \<and> (huntName payload = Some h
        \<and> createQueryFromInput cfg S payload w = (Inr savedSearch, wq)
        \<and> createSentinelHunt cfg S
             \<lparr>hunt_name = huntName payload, hunt_desc = huntDescription payload\<rparr> wq = (Inl error, wh)
      \<longrightarrow> createHuntWithQuery cfg S payload w = (Inl error, wh)
          \<and> route_bulk_create_hunt (createHuntWithQuery cfg S) payload w =
                (\<lparr>status = 500, reply = ErrorJson (clientMessage error)\<rparr>, wh)
          \<and> (\<exists>n1 p1 n2 p2.
                issued wh = issued w @ [CreateSavedSearch n1 p1, CreateHunt n2 p2]
              \<and> S (CreateSavedSearch n1 p1) (workspace w) = (Inr savedSearch, workspace wq)
              \<and> S (CreateHunt n2 p2) (workspace wq) = (Inl error, workspace wh)
              \<and> stamped cfg (CreateSavedSearch n1 p1))
          \<and> \<not> list_ex creates_relation (drop (length (issued w)) (issued wh))
          \<and> \<not> list_ex siem_delete (drop (length (issued w)) (issued wh)))"
proof -
  have order: "in_bulk_order (drop (length (issued w)) (issued (snd (createHuntWithQuery cfg S payload w))))"
    using createHuntWithQuery_new [of cfg S payload w] by auto
  have fail: "createHuntWithQuery cfg S payload w = (Inl error, wh)
          \<and> route_bulk_create_hunt (createHuntWithQuery cfg S) payload w =
                (\<lparr>status = 500, reply = ErrorJson (clientMessage error)\<rparr>, wh)
          \<and> (\<exists>n1 p1 n2 p2.
                issued wh = issued w @ [CreateSavedSearch n1 p1, CreateHunt n2 p2]
              \<and> S (CreateSavedSearch n1 p1) (workspace w) = (Inr savedSearch, workspace wq)
              \<and> S (CreateHunt n2 p2) (workspace wq) = (Inl error, workspace wh)
              \<and> stamped cfg (CreateSavedSearch n1 p1))
          \<and> \<not> list_ex creates_relation (drop (length (issued w)) (issued wh))
          \<and> \<not> list_ex siem_delete (drop (length (issued w)) (issued wh))"
    if hn: "huntName payload = Some h"
      and q: "createQueryFromInput cfg S payload w = (Inr savedSearch, wq)"
      and hf: "createSentinelHunt cfg S
                 \<lparr>hunt_name = huntName payload, hunt_desc = huntDescription payload\<rparr> wq = (Inl error, wh)"
  proof -
    from createQueryFromInput_ok [OF q] obtain n1 p1 where
      a: "issued wq = issued w @ [CreateSavedSearch n1 p1]"
         "S (CreateSavedSearch n1 p1) (workspace w) = (Inr savedSearch, workspace wq)"
         "stamped cfg (CreateSavedSearch n1 p1)"
         "in_name payload \<noteq> None" "in_query payload \<noteq> None"
      by blast
    from createSentinelHunt_failed [OF hf] hn obtain n2 p2 where
      b: "issued wh = issued wq @ [CreateHunt n2 p2]"
         "S (CreateHunt n2 p2) (workspace wq) = (Inl error, workspace wh)"
      by auto
    have r: "createHuntWithQuery cfg S payload w = (Inl error, wh)"
      using a(4,5) hn q hf by (auto simp: createHuntWithQuery_def)
    have l: "issued wh = issued w @ [CreateSavedSearch n1 p1, CreateHunt n2 p2]"
      using a(1) b(1) by simp
    from l have "\<not> list_ex creates_relation (drop (length (issued w)) (issued wh))"
      "\<not> list_ex siem_delete (drop (length (issued w)) (issued wh))"
      by simp_all
    moreover have "route_bulk_create_hunt (createHuntWithQuery cfg S) payload w =
                (\<lparr>status = 500, reply = ErrorJson (clientMessage error)\<rparr>, wh)"
      using r by (simp add: route_bulk_create_hunt_def forward_route_def sendErrorResponse_def)
    ultimately show ?thesis
      using r l a(2,3) b(2) by blast
  qed
  from order fail show ?thesis by blast
qed

theorem bulk_hunt_failure_leaves_query_witness:
  "fst (createHuntWithQuery cfg0 (workspace_service cfg0 hunts_down) bulk0 w0) = Inl remote_error
   \<and> map res_id (workspace (snd (createHuntWithQuery cfg0 (workspace_service cfg0 hunts_down) bulk0 w0)))
       = [''/ws/savedSearches/a'']
   \<and> length (issued (snd (createHuntWithQuery cfg0 (workspace_service cfg0 hunts_down) bulk0 w0))) = 2
   \<and> \<not> list_ex creates_relation
         (issued (snd (createHuntWithQuery cfg0 (workspace_service cfg0 hunts_down) bulk0 w0)))
   \<and> \<not> list_ex siem_delete
         (issued (snd (createHuntWithQuery cfg0 (workspace_service cfg0 hunts_down) bulk0 w0)))"
proof -
  let ?S = "workspace_service cfg0 hunts_down"
  let ?p1 = "\<lparr>category = ''Hunting Queries'', ss_displayName = ''q1'', query = ''Heartbeat'',
              ss_description = [],
              tags = [\<lparr>tag_name = ''tactics'', tag_value = ''Discovery''\<rparr>,
                      \<lparr>tag_name = ''techniques'', tag_value = ''T1046''\<rparr>,
                      \<lparr>tag_name = ''createdBy'', tag_value = ''huntsAPI''\<rparr>],
              extid = None\<rparr>"
  let ?ss = "\<lparr>res_id = ''/ws/savedSearches/a'', res_name = ''a'',
              res_properties = SavedSearchProperties ?p1\<rparr>"
  let ?p2 = "\<lparr>hunt_displayName = ''h1'', hunt_description = [], hunt_status = ''New'',
              hunt_labels = [''huntsAPI'']\<rparr>"
  let ?wq = "w0\<lparr>workspace := [?ss], issued := [CreateSavedSearch ''a'' ?p1], drawn := 1\<rparr>"
  let ?wh = "w0\<lparr>workspace := [?ss],
                 issued := [CreateSavedSearch ''a'' ?p1, CreateHunt ''aa'' ?p2], drawn := 2\<rparr>"
  have hn: "huntName bulk0 = Some ''h1''"
    by (simp add: bulk0_def)
  have q: "createQueryFromInput cfg0 ?S bulk0 w0 = (Inr ?ss, ?wq)"
    by (simp add: createQueryFromInput_def bulk0_def cfg0_def w0_def uuidv4_def siem_call_def
        workspace_service_def hunts_down_def saved_search_prefix_def query_tags_def text_or_empty_def)
  have h: "createSentinelHunt cfg0 ?S
             \<lparr>hunt_name = huntName bulk0, hunt_desc = huntDescription bulk0\<rparr> ?wq
           = (Inl remote_error, ?wh)"
    by (simp add: createSentinelHunt_def bulk0_def cfg0_def w0_def uuidv4_def siem_call_def
        workspace_service_def hunts_down_def text_or_empty_def)
  from bulk_hunt_failure_leaves_query [where w = w0 and cfg = cfg0 and S = ?S and payload = bulk0
      and h = "''h1''" and savedSearch = ?ss and wq = ?wq and error = remote_error and wh = ?wh]
    hn q h
  have "createHuntWithQuery cfg0 ?S bulk0 w0 = (Inl remote_error, ?wh)"
    by blast
  then show ?thesis
    by (simp add: w0_def)
qed

section \<open>Attribution\<close>

lemma owned_drawn: "owned cfg (w\<lparr>drawn := n\<rparr>) = owned cfg w"
  by (simp add: owned_def)

lemma owned_step:
  assumes "owned cfg w" and "stamped cfg req"
  shows "owned cfg (snd (siem_call (workspace_service cfg down) req w))"
proof -
  have old: "\<And>r. r \<in> set (workspace w) \<Longrightarrow>
               carries_label cfg r = (\<exists>x \<in> set (issued w). made cfg x = Some r)"
    using assms(1) by (simp add: owned_def list_all_iff list_ex_iff)
  have st: "\<And>r. made cfg req = Some r \<Longrightarrow> carries_label cfg r"
    using assms(2) by (simp add: stamped_def)
  have keep: "\<And>r. r \<in> set (workspace w) \<Longrightarrow>
               carries_label cfg r = (\<exists>x \<in> set (issued w @ [req]). made cfg x = Some r)"
    using old st by auto
  show ?thesis
    using keep st
    by (auto simp: siem_call_def workspace_service_def owned_def list_all_iff list_ex_iff
        split: option.splits)
qed

lemma createQueryFromInput_owned:
  "owned cfg w \<Longrightarrow> owned cfg (snd (createQueryFromInput cfg (workspace_service cfg down) payload w))"
  by (auto simp: createQueryFromInput_def uuidv4_def owned_drawn stamped_def carries_label_def
      query_tags_stamped intro!: owned_step split: option.splits)

lemma createSentinelHunt_owned:
  "owned cfg w \<Longrightarrow> owned cfg (snd (createSentinelHunt cfg (workspace_service cfg down) payload w))"
  by (auto simp: createSentinelHunt_def uuidv4_def owned_drawn stamped_def carries_label_def
      intro!: owned_step split: option.splits)

lemma linkQueryToHunt_owned:
  "owned cfg w \<Longrightarrow> owned cfg (snd (linkQueryToHunt cfg (workspace_service cfg down) payload w))"
  by (auto simp: linkQueryToHunt_def uuidv4_def owned_drawn stamped_def carries_label_def
      intro!: owned_step split: option.splits)

lemma createQueryFromFile_owned:
  "owned cfg w \<Longrightarrow> owned cfg (snd (createQueryFromFile cfg (workspace_service cfg down) p w))"
  by (auto simp: createQueryFromFile_def createQueryFromInput_owned split: option.splits)

lemma createHuntWithQuery_owned:
  assumes "owned cfg w"
  shows "owned cfg (snd (createHuntWithQuery cfg (workspace_service cfg down) payload w))"
proof -
  let ?S = "workspace_service cfg down"
  let ?hp = "\<lparr>hunt_name = huntName payload, hunt_desc = huntDescription payload\<rparr>"
  obtain r1 wq where q: "createQueryFromInput cfg ?S payload w = (r1, wq)"
    by (cases "createQueryFromInput cfg ?S payload w")
  obtain r2 wh where h: "createSentinelHunt cfg ?S ?hp wq = (r2, wh)"
    by (cases "createSentinelHunt cfg ?S ?hp wq")
  have oq: "owned cfg wq"
    using createQueryFromInput_owned [OF assms, of down payload] q by simp
  have oh: "owned cfg wh"
    using createSentinelHunt_owned [OF oq, of down ?hp] h by simp
  show ?thesis
    using assms q h oq oh linkQueryToHunt_owned [OF oh, of down]
    by (auto simp: createHuntWithQuery_def split: sum.splits)
qed

text \<open>
  C5. On every creation path (query from input, query from file, hunt,
  relation, bulk) every request issued makes a resource that carries the
  Attribution Label, whatever the workspace answers. On the reference
  workspace the ownership invariant is kept: if the stored resources that carry
  the label are exactly those a request of this system made, the same holds
  after any creation path, whichever requests the workspace refuses.
\<close>

theorem creation_paths_stamp:
  "list_all (stamped cfg) (drop (length (issued w)) (issued (snd (create cfg S call w))))
   \<and> (owned cfg w' \<longrightarrow> owned cfg (snd (create cfg (workspace_service cfg down) call w')))"
proof -
  have a: "list_all (stamped cfg) (drop (length (issued w)) (issued (snd (create cfg S call w))))"
    using create_new [of cfg S call w] by auto
  have b: "owned cfg (snd (create cfg (workspace_service cfg down) call w'))" if "owned cfg w'"
    using that
    by (cases call)
      (simp_all add: createQueryFromInput_owned createQueryFromFile_owned createSentinelHunt_owned
        linkQueryToHunt_owned createHuntWithQuery_owned)
  from a b show ?thesis by blast
qed

theorem creation_paths_stamp_witness:
  "owned cfg0 w_foreign
   \<and> owned cfg0 (snd (create cfg0 (workspace_service cfg0 siem_up) (Bulk bulk0) w_foreign))
   \<and> map (carries_label cfg0)
         (workspace (snd (create cfg0 (workspace_service cfg0 siem_up) (Bulk bulk0) w_foreign)))
       = [True, True, True, False]
   \<and> list_all (stamped cfg0)
         (issued (snd (create cfg0 (workspace_service cfg0 siem_up) (Bulk bulk0) w_foreign)))"
proof -
  let ?run = "create cfg0 (workspace_service cfg0 siem_up) (Bulk bulk0) w_foreign"
  have base: "owned cfg0 w_foreign"
    by (simp add: owned_def w_foreign_def w0_def foreign_search_def carries_label_def)
  have none: "issued w_foreign = []"
    by (simp add: w_foreign_def w0_def)
  have ev: "map (carries_label cfg0) (workspace (snd ?run)) = [True, True, True, False]"
    by (simp add: createHuntWithQuery_def createQueryFromInput_def createSentinelHunt_def
        linkQueryToHunt_def bulk0_def cfg0_def w_foreign_def w0_def uuidv4_def siem_call_def
        workspace_service_def siem_up_def saved_search_prefix_def hunt_prefix_def query_tags_def
        text_or_empty_def well_formed_query_id_def foreign_search_def carries_label_def)
  show ?thesis
    using creation_paths_stamp [where cfg = cfg0 and w = w_foreign and w' = w_foreign
        and S = "workspace_service cfg0 siem_up" and down = siem_up and call = "Bulk bulk0"]
      base none ev
    by simp
qed


end
